theory Spec2Isabelle
  imports Complex_Main
begin

section \<open>Conventions\<close>

text \<open>
  The program is JavaScript running on the Matter.js physics library. Module-level
  variables become the fields of a record that every operation takes and returns. A thrown
  exception is the \<open>Inl\<close> branch of a sum; a loop that may not return yields an
  \<open>option\<close>, \<open>None\<close> when it does not. Counters that only ever count up from
  zero are \<^typ>\<open>nat\<close>.

  A JavaScript number is an IEEE 754 double. The simulator's clock decides by comparison
  how many ticks to run, and there the rounding of each operation counts: the arithmetic
  of Simulator.js is modelled with every result rounded to the nearest double
  (section ``JavaScript numbers''). Everywhere else a number is a \<^typ>\<open>real\<close> and
  arithmetic is exact: the velocities, forces and scores computed there are the values
  the program computes up to rounding.
\<close>

section \<open>JavaScript numbers\<close>

text \<open>
  The value of an arithmetic operation on doubles is the exact result rounded to the
  nearest double, ties going to the double with an even significand. A double has a
  significand of 53 bits: in the binade \<open>2 ^ e \<le> \<bar>x\<bar> < 2 ^ (e + 1)\<close> the doubles are
  the integer multiples of \<open>2 ^ (e - 52)\<close>. The exponent range is not bounded in the
  model: overflow to \<open>Infinity\<close>, the subnormal numbers and \<open>NaN\<close> are left out. The
  simulator computes with milliseconds, far from both ends of the range.
\<close>

definition round_half_even :: "real \<Rightarrow> int" where
  "round_half_even x =
     (let f = \<lfloor>x\<rfloor>; r = x - of_int f
      in if r < 1 / 2 then f
         else if r > 1 / 2 then f + 1
         else if even f then f else f + 1)"

definition binade :: "real \<Rightarrow> int" where
  "binade x = \<lfloor>log 2 \<bar>x\<bar>\<rfloor>"

definition binary64 :: "real \<Rightarrow> real" where
  "binary64 x =
     (if x = 0 then 0
      else let ulp = 2 powi (binade x - 52)
           in of_int (round_half_even (x / ulp)) * ulp)"




definition js_div :: "real \<Rightarrow> real \<Rightarrow> real" where
  "js_div a b = binary64 (a / b)"

datatype js_error = TypeError

section \<open>Simulator.js: the fixed timestep loop\<close>

text \<open>\<open>SIM_CONFIG\<close>.\<close>

definition fixedDelta :: real where
  "fixedDelta = js_div 1000 60"


text \<open>The \<open>debugInfo\<close> object handed to the render callback.\<close>

record debugInfo =
  di_fps :: nat
  di_tickCount :: nat
  di_isPaused :: bool
  di_isRunning :: bool

text \<open>
  The module state of Simulator.js. The engine is a Matter.js object, here a value of an
  arbitrary type \<open>'e\<close>; \<open>None\<close> is \<open>null\<close>. The render and reset callbacks are
  functions supplied by the caller: the model keeps whether each is set, and records what
  they are called with (\<open>rendered\<close>, newest last; \<open>resets\<close>, the number of calls).
\<close>

record 'e simulator =
  engine :: "'e option"
  isRunning :: bool
  isPaused :: bool
  accumulator :: real
  lastTime :: real
  frameCount :: nat
  fps :: nat
  fpsLastTime :: real
  tickCount :: nat
  onRender :: bool
  onReset :: bool
  rendered :: "debugInfo list"
  resets :: nat

text \<open>
  \<open>init(matterEngine, renderCallback, resetCallback)\<close>; \<open>now\<close> is the value of
  \<open>performance.now()\<close>.
\<close>

definition init :: "'e simulator \<Rightarrow> 'e option \<Rightarrow> bool \<Rightarrow> bool \<Rightarrow> real \<Rightarrow> 'e simulator" where
  "init s matterEngine renderCallback resetCallback now =
     s\<lparr> engine := matterEngine, onRender := renderCallback, onReset := resetCallback,
        accumulator := 0, lastTime := 0, tickCount := 0, frameCount := 0, fps := 0,
        fpsLastTime := now \<rparr>"

definition setEngine :: "'e simulator \<Rightarrow> 'e option \<Rightarrow> 'e simulator" where
  "setEngine s matterEngine = s\<lparr> engine := matterEngine \<rparr>"


text \<open>The render step shared by \<open>loop\<close> and \<open>step\<close>: \<open>if (onRender) onRender(engine, debugInfo)\<close>.\<close>

definition render :: "'e simulator \<Rightarrow> debugInfo \<Rightarrow> 'e simulator" where
  "render s info = (if onRender s then s\<lparr> rendered := rendered s @ [info] \<rparr> else s)"



definition start :: "'e simulator \<Rightarrow> 'e simulator" where
  "start s =
     (if isRunning s then s
      else s\<lparr> isRunning := True, isPaused := False, lastTime := 0, accumulator := 0 \<rparr>)"

definition pause :: "'e simulator \<Rightarrow> 'e simulator" where
  "pause s = (if \<not> isRunning s then s else s\<lparr> isPaused := True \<rparr>)"

definition resume :: "'e simulator \<Rightarrow> real \<Rightarrow> 'e simulator" where
  "resume s now = (if \<not> isRunning s then s else s\<lparr> isPaused := False, lastTime := now \<rparr>)"

definition togglePause :: "'e simulator \<Rightarrow> real \<Rightarrow> 'e simulator" where
  "togglePause s now = (if isPaused s then resume s now else pause s)"

text \<open>\<open>step()\<close>: one forced physics tick.\<close>

definition step :: "('e \<Rightarrow> real \<Rightarrow> 'e) \<Rightarrow> 'e simulator \<Rightarrow> 'e simulator" where
  "step upd s =
     (case engine s of
        None \<Rightarrow> s
      | Some e \<Rightarrow>
          let s1 = (if \<not> isPaused s then pause s else s);
              s2 = s1\<lparr> engine := Some (upd e fixedDelta) \<rparr>;
              s3 = s2\<lparr> tickCount := tickCount s2 + 1 \<rparr>
          in render s3 \<lparr> di_fps = fps s3, di_tickCount = tickCount s3,
                          di_isPaused = True, di_isRunning = isRunning s3 \<rparr>)"

definition reset :: "'e simulator \<Rightarrow> 'e simulator" where
  "reset s =
     (let s1 = s\<lparr> isRunning := False, isPaused := False, accumulator := 0,
                  lastTime := 0, tickCount := 0 \<rparr>
      in if onReset s1 then s1\<lparr> resets := resets s1 + 1 \<rparr> else s1)"


section \<open>The physics library, as this program uses it\<close>

text \<open>
  Matter.js is not part of the repository. The model keeps the fields of its objects that
  the program sets or reads, and the documented effect of the library calls the program
  makes. An object reference that may be \<open>null\<close> or \<open>undefined\<close> is an \<open>option\<close>.
\<close>

record vec =
  vec_x :: real
  vec_y :: real

datatype shape = Circle real | Rectangle real real

text \<open>
  The five material properties; \<open>RAGDOLL_CONFIG.physics\<close> holds them, and
  \<open>bodyOptions\<close> copies them into the options of every body.
\<close>

record physics =
  friction :: real
  frictionStatic :: real
  frictionAir :: real
  restitution :: real
  density :: real

record collisionFilter =
  cf_group :: int
  cf_category :: int
  cf_mask :: int

text \<open>
  A body. Of the material options the library stores friction, static friction, air
  friction and restitution as given. The density it uses once, to set the mass to density
  times the area of the shape, and then overwrites with mass divided by area; the body of
  the model has neither field, and the density as configured stays in the \<open>config\<close> of
  the ragdoll.
\<close>

record body =
  label :: string
  shape :: shape
  position :: vec
  velocity :: vec
  force :: vec
  torque :: real
  angle :: real
  angularVelocity :: real
  isStatic :: bool
  b_friction :: real
  b_frictionStatic :: real
  b_frictionAir :: real
  b_restitution :: real
  collisionFilter :: collisionFilter

text \<open>The options object that \<open>bodyOptions(label)\<close> builds in \<open>createRagdoll\<close>.\<close>

record body_options =
  bo_label :: string
  bo_physics :: physics
  bo_group :: int

text \<open>
  \<open>Bodies.circle\<close> and \<open>Bodies.rectangle\<close>: a dynamic body at rest at the given
  position, with the options merged over the library's defaults (category \<open>1\<close>, mask
  \<open>0xFFFFFFFF\<close>).
\<close>

definition new_body :: "shape \<Rightarrow> real \<Rightarrow> real \<Rightarrow> body_options \<Rightarrow> body" where
  "new_body sh x y opts =
     \<lparr> label = bo_label opts, shape = sh,
       position = \<lparr> vec_x = x, vec_y = y \<rparr>,
       velocity = \<lparr> vec_x = 0, vec_y = 0 \<rparr>,
       force = \<lparr> vec_x = 0, vec_y = 0 \<rparr>,
       torque = 0, angle = 0, angularVelocity = 0, isStatic = False,
       b_friction = friction (bo_physics opts),
       b_frictionStatic = frictionStatic (bo_physics opts),
       b_frictionAir = frictionAir (bo_physics opts),
       b_restitution = restitution (bo_physics opts),
       collisionFilter = \<lparr> cf_group = bo_group opts, cf_category = 1, cf_mask = 4294967295 \<rparr> \<rparr>"

definition Bodies_circle :: "real \<Rightarrow> real \<Rightarrow> real \<Rightarrow> body_options \<Rightarrow> body" where
  "Bodies_circle x y r opts = new_body (Circle r) x y opts"

definition Bodies_rectangle :: "real \<Rightarrow> real \<Rightarrow> real \<Rightarrow> real \<Rightarrow> body_options \<Rightarrow> body" where
  "Bodies_rectangle x y w h opts = new_body (Rectangle w h) x y opts"

text \<open>
  \<open>Body.setVelocity\<close>, \<open>Body.setAngularVelocity\<close> and \<open>Body.applyForce\<close>.
  \<open>Body.setVelocity(body, v)\<close> makes \<open>v\<close> the velocity of the body. Releases of
  the library up to 0.18 store \<open>v\<close> itself; later releases move the previous position to
  \<open>position - v\<close> and store the difference of the two positions, which is \<open>v\<close> in
  exact arithmetic and a double next to \<open>v\<close> on doubles. The page that loads the library
  is not part of the source; the model stores \<open>v\<close>.
\<close>

definition Body_setVelocity :: "body \<Rightarrow> vec \<Rightarrow> body" where
  "Body_setVelocity b v = b\<lparr> velocity := v \<rparr>"

definition Body_setAngularVelocity :: "body \<Rightarrow> real \<Rightarrow> body" where
  "Body_setAngularVelocity b w = b\<lparr> angularVelocity := w \<rparr>"

definition Body_applyForce :: "body \<Rightarrow> vec \<Rightarrow> vec \<Rightarrow> body" where
  "Body_applyForce b pos f =
     b\<lparr> force := \<lparr> vec_x = vec_x (force b) + vec_x f, vec_y = vec_y (force b) + vec_y f \<rparr>,
        torque := torque b + ((vec_x pos - vec_x (position b)) * vec_y f
                              - (vec_y pos - vec_y (position b)) * vec_x f) \<rparr>"

text \<open>
  Modelled from the spec: the library's rule for which pairs of bodies may produce a
  contact (\<open>Detector.canCollide\<close> of Matter.js) is not under src/. The spec and the
  comment in \<open>spawnFighters\<close> state it for the groups this program uses: bodies that
  share a negative group never collide with each other; bodies of different groups collide
  when each one's mask admits the other's category. The library adds that bodies sharing a
  positive group always collide.
\<close>

definition canCollide :: "collisionFilter \<Rightarrow> collisionFilter \<Rightarrow> bool" where
  "canCollide filterA filterB =
     (if cf_group filterA = cf_group filterB \<and> cf_group filterA \<noteq> 0
      then cf_group filterA > 0
      else and (cf_mask filterA) (cf_category filterB) \<noteq> 0
           \<and> and (cf_mask filterB) (cf_category filterA) \<noteq> 0)"

text \<open>
  A constraint joins two bodies at anchor points local to each. The two bodies are
  references in the program; the model names them by their keys in \<open>bodies\<close>.

  \<open>Constraint.create\<close> keeps a stiffness that is not zero, whatever its sign. A
  stiffness of zero it replaces (\<open>stiffness || (length > 0 ? 1 : 0.7)\<close>) by its own
  default, which is 1 or 0.7 depending on the rest length that the library measures
  between the two anchors; the model does not compute that length, and
  \<open>Library_default\<close> stands for the value the library chooses. The damping is kept
  (\<open>damping || 0\<close>).
\<close>

datatype stiffness_setting = Configured real | Library_default

record constraint =
  c_bodyA :: string
  c_bodyB :: string
  c_pointA :: vec
  c_pointB :: vec
  c_stiffness :: stiffness_setting
  c_damping :: real
  c_visible :: bool

record constraint_options =
  co_bodyA :: string
  co_bodyB :: string
  co_pointA :: vec
  co_pointB :: vec
  co_stiffness :: real
  co_damping :: real
  co_visible :: bool

definition Constraint_create :: "constraint_options \<Rightarrow> constraint" where
  "Constraint_create opts =
     \<lparr> c_bodyA = co_bodyA opts, c_bodyB = co_bodyB opts,
       c_pointA = co_pointA opts, c_pointB = co_pointB opts,
       c_stiffness = (if co_stiffness opts = 0 then Library_default
                      else Configured (co_stiffness opts)),
       c_damping = co_damping opts,
       c_visible = co_visible opts \<rparr>"

record composite =
  comp_label :: string
  comp_bodies :: "string list"
  comp_constraints :: "constraint list"

section \<open>Ragdoll.js\<close>

record box =
  width :: real
  height :: real

record constraint_settings =
  stiffness :: real
  damping :: real
  angularStiffness :: real

text \<open>
  \<open>RAGDOLL_CONFIG\<close>. The head has only a radius. The field \<open>constraints\<close> of the
  source is \<open>constraintSettings\<close> here, because the ragdoll itself has a field of
  that name.
\<close>

record ragdoll_config =
  scale :: real
  head_radius :: real
  torso :: box
  pelvis :: box
  upperArm :: box
  lowerArm :: box
  hand :: box
  upperLeg :: box
  lowerLeg :: box
  foot :: box
  constraintSettings :: constraint_settings
  physics :: physics
  collisionGroup :: int

definition RAGDOLL_CONFIG :: ragdoll_config where
  "RAGDOLL_CONFIG =
     \<lparr> scale = 1.0,
       head_radius = 18,
       torso = \<lparr> width = 28, height = 50 \<rparr>,
       pelvis = \<lparr> width = 24, height = 20 \<rparr>,
       upperArm = \<lparr> width = 10, height = 32 \<rparr>,
       lowerArm = \<lparr> width = 8, height = 28 \<rparr>,
       hand = \<lparr> width = 8, height = 8 \<rparr>,
       upperLeg = \<lparr> width = 12, height = 38 \<rparr>,
       lowerLeg = \<lparr> width = 10, height = 34 \<rparr>,
       foot = \<lparr> width = 16, height = 8 \<rparr>,
       constraintSettings = \<lparr> stiffness = 0.9, damping = 0.3, angularStiffness = 0.1 \<rparr>,
       physics = \<lparr> friction = 0.8, frictionStatic = 0.9, frictionAir = 0.02,
                   restitution = 0.1, density = 0.001 \<rparr>,
       collisionGroup = -1 \<rparr>"

text \<open>
  The \<open>options\<close> argument of \<open>createRagdoll\<close>: any of the top-level keys, each
  replacing the default whole (\<open>{ ...RAGDOLL_CONFIG, ...options }\<close> is a shallow merge).
  A key that is given holds an object of the right shape, with any numbers in it. A key
  bound to \<open>null\<close> in place of an object is outside this type: \<open>createRagdoll\<close>
  reads the fields of every sub-object and would throw a \<open>TypeError\<close> on it.
\<close>

record ragdoll_options =
  o_scale :: "real option"
  o_head_radius :: "real option"
  o_torso :: "box option"
  o_pelvis :: "box option"
  o_upperArm :: "box option"
  o_lowerArm :: "box option"
  o_hand :: "box option"
  o_upperLeg :: "box option"
  o_lowerLeg :: "box option"
  o_foot :: "box option"
  o_constraints :: "constraint_settings option"
  o_physics :: "physics option"
  o_collisionGroup :: "int option"

definition no_options :: ragdoll_options where
  "no_options =
     \<lparr> o_scale = None, o_head_radius = None, o_torso = None, o_pelvis = None,
       o_upperArm = None, o_lowerArm = None, o_hand = None, o_upperLeg = None,
       o_lowerLeg = None, o_foot = None, o_constraints = None, o_physics = None,
       o_collisionGroup = None \<rparr>"

definition or_default :: "'a option \<Rightarrow> 'a \<Rightarrow> 'a" where
  "or_default v d = (case v of None \<Rightarrow> d | Some w \<Rightarrow> w)"

definition merge_config :: "ragdoll_config \<Rightarrow> ragdoll_options \<Rightarrow> ragdoll_config" where
  "merge_config c opts =
     \<lparr> scale = or_default (o_scale opts) (scale c),
       head_radius = or_default (o_head_radius opts) (head_radius c),
       torso = or_default (o_torso opts) (torso c),
       pelvis = or_default (o_pelvis opts) (pelvis c),
       upperArm = or_default (o_upperArm opts) (upperArm c),
       lowerArm = or_default (o_lowerArm opts) (lowerArm c),
       hand = or_default (o_hand opts) (hand c),
       upperLeg = or_default (o_upperLeg opts) (upperLeg c),
       lowerLeg = or_default (o_lowerLeg opts) (lowerLeg c),
       foot = or_default (o_foot opts) (foot c),
       constraintSettings = or_default (o_constraints opts) (constraintSettings c),
       physics = or_default (o_physics opts) (physics c),
       collisionGroup = or_default (o_collisionGroup opts) (collisionGroup c) \<rparr>"

record ragdoll =
  bodies :: "(string \<times> body) list"
  constraints :: "constraint list"
  composite :: composite
  config :: ragdoll_config

definition bodyOptions :: "ragdoll_config \<Rightarrow> string \<Rightarrow> body_options" where
  "bodyOptions cfg lbl =
     \<lparr> bo_label = lbl, bo_physics = physics cfg, bo_group = collisionGroup cfg \<rparr>"

text \<open>The helper \<open>connect\<close> of \<open>createRagdoll\<close>, with \<open>constraintOptions\<close> spread in.\<close>

definition connect :: "ragdoll_config \<Rightarrow> string \<Rightarrow> string \<Rightarrow> vec \<Rightarrow> vec \<Rightarrow> constraint" where
  "connect cfg a b pA pB =
     Constraint_create
       \<lparr> co_bodyA = a, co_bodyB = b, co_pointA = pA, co_pointB = pB,
         co_stiffness = stiffness (constraintSettings cfg),
         co_damping = damping (constraintSettings cfg),
         co_visible = False \<rparr>"

text \<open>
  \<open>createRagdoll(x, y, options)\<close>. The object \<open>bodies\<close> is a list of keys and
  bodies, in the order of the object literal; the composite holds the keys of its bodies.
\<close>

definition createRagdoll :: "real \<Rightarrow> real \<Rightarrow> ragdoll_options \<Rightarrow> ragdoll" where
  "createRagdoll x y options =
     (let cfg = merge_config RAGDOLL_CONFIG options;
          s = scale cfg;
          torsoY = y;
          headY = torsoY - height (torso cfg) * s / 2 - head_radius cfg * s - 4 * s;
          pelvisY = torsoY + height (torso cfg) * s / 2 + height (pelvis cfg) * s / 2;
          shoulderY = torsoY - height (torso cfg) * s / 2 + 8 * s;
          shoulderOffsetX = width (torso cfg) * s / 2 + 2 * s;
          hipY = pelvisY + height (pelvis cfg) * s / 2;
          hipOffsetX = width (pelvis cfg) * s / 4;
          bs =
            [ (''head'', Bodies_circle x headY (head_radius cfg * s) (bodyOptions cfg ''head'')),
              (''torso'', Bodies_rectangle x torsoY
                 (width (torso cfg) * s) (height (torso cfg) * s) (bodyOptions cfg ''torso'')),
              (''pelvis'', Bodies_rectangle x pelvisY
                 (width (pelvis cfg) * s) (height (pelvis cfg) * s) (bodyOptions cfg ''pelvis'')),
              (''leftUpperArm'', Bodies_rectangle
                 (x - shoulderOffsetX - height (upperArm cfg) * s / 2) shoulderY
                 (height (upperArm cfg) * s) (width (upperArm cfg) * s)
                 (bodyOptions cfg ''leftUpperArm'')),
              (''leftLowerArm'', Bodies_rectangle
                 (x - shoulderOffsetX - height (upperArm cfg) * s - height (lowerArm cfg) * s / 2)
                 shoulderY
                 (height (lowerArm cfg) * s) (width (lowerArm cfg) * s)
                 (bodyOptions cfg ''leftLowerArm'')),
              (''leftHand'', Bodies_rectangle
                 (x - shoulderOffsetX - height (upperArm cfg) * s - height (lowerArm cfg) * s
                    - width (hand cfg) * s / 2)
                 shoulderY
                 (width (hand cfg) * s) (height (hand cfg) * s)
                 (bodyOptions cfg ''leftHand'')),
              (''rightUpperArm'', Bodies_rectangle
                 (x + shoulderOffsetX + height (upperArm cfg) * s / 2) shoulderY
                 (height (upperArm cfg) * s) (width (upperArm cfg) * s)
                 (bodyOptions cfg ''rightUpperArm'')),
              (''rightLowerArm'', Bodies_rectangle
                 (x + shoulderOffsetX + height (upperArm cfg) * s + height (lowerArm cfg) * s / 2)
                 shoulderY
                 (height (lowerArm cfg) * s) (width (lowerArm cfg) * s)
                 (bodyOptions cfg ''rightLowerArm'')),
              (''rightHand'', Bodies_rectangle
                 (x + shoulderOffsetX + height (upperArm cfg) * s + height (lowerArm cfg) * s
                    + width (hand cfg) * s / 2)
                 shoulderY
                 (width (hand cfg) * s) (height (hand cfg) * s)
                 (bodyOptions cfg ''rightHand'')),
              (''leftUpperLeg'', Bodies_rectangle
                 (x - hipOffsetX) (hipY + height (upperLeg cfg) * s / 2)
                 (width (upperLeg cfg) * s) (height (upperLeg cfg) * s)
                 (bodyOptions cfg ''leftUpperLeg'')),
              (''leftLowerLeg'', Bodies_rectangle
                 (x - hipOffsetX)
                 (hipY + height (upperLeg cfg) * s + height (lowerLeg cfg) * s / 2)
                 (width (lowerLeg cfg) * s) (height (lowerLeg cfg) * s)
                 (bodyOptions cfg ''leftLowerLeg'')),
              (''leftFoot'', Bodies_rectangle
                 (x - hipOffsetX + 4 * s)
                 (hipY + height (upperLeg cfg) * s + height (lowerLeg cfg) * s
                    + height (foot cfg) * s / 2)
                 (width (foot cfg) * s) (height (foot cfg) * s)
                 (bodyOptions cfg ''leftFoot'')),
              (''rightUpperLeg'', Bodies_rectangle
                 (x + hipOffsetX) (hipY + height (upperLeg cfg) * s / 2)
                 (width (upperLeg cfg) * s) (height (upperLeg cfg) * s)
                 (bodyOptions cfg ''rightUpperLeg'')),
              (''rightLowerLeg'', Bodies_rectangle
                 (x + hipOffsetX)
                 (hipY + height (upperLeg cfg) * s + height (lowerLeg cfg) * s / 2)
                 (width (lowerLeg cfg) * s) (height (lowerLeg cfg) * s)
                 (bodyOptions cfg ''rightLowerLeg'')),
              (''rightFoot'', Bodies_rectangle
                 (x + hipOffsetX + 4 * s)
                 (hipY + height (upperLeg cfg) * s + height (lowerLeg cfg) * s
                    + height (foot cfg) * s / 2)
                 (width (foot cfg) * s) (height (foot cfg) * s)
                 (bodyOptions cfg ''rightFoot'')) ];
          cs =
            [ \<comment> \<open>neck\<close>
              connect cfg ''head'' ''torso''
                \<lparr> vec_x = 0, vec_y = head_radius cfg * s \<rparr>
                \<lparr> vec_x = 0, vec_y = - height (torso cfg) * s / 2 \<rparr>,
              \<comment> \<open>spine\<close>
              connect cfg ''torso'' ''pelvis''
                \<lparr> vec_x = 0, vec_y = height (torso cfg) * s / 2 \<rparr>
                \<lparr> vec_x = 0, vec_y = - height (pelvis cfg) * s / 2 \<rparr>,
              \<comment> \<open>left shoulder, elbow, wrist\<close>
              connect cfg ''torso'' ''leftUpperArm''
                \<lparr> vec_x = - width (torso cfg) * s / 2,
                  vec_y = - height (torso cfg) * s / 2 + 8 * s \<rparr>
                \<lparr> vec_x = height (upperArm cfg) * s / 2, vec_y = 0 \<rparr>,
              connect cfg ''leftUpperArm'' ''leftLowerArm''
                \<lparr> vec_x = - height (upperArm cfg) * s / 2, vec_y = 0 \<rparr>
                \<lparr> vec_x = height (lowerArm cfg) * s / 2, vec_y = 0 \<rparr>,
              connect cfg ''leftLowerArm'' ''leftHand''
                \<lparr> vec_x = - height (lowerArm cfg) * s / 2, vec_y = 0 \<rparr>
                \<lparr> vec_x = width (hand cfg) * s / 2, vec_y = 0 \<rparr>,
              \<comment> \<open>right shoulder, elbow, wrist\<close>
              connect cfg ''torso'' ''rightUpperArm''
                \<lparr> vec_x = width (torso cfg) * s / 2,
                  vec_y = - height (torso cfg) * s / 2 + 8 * s \<rparr>
                \<lparr> vec_x = - height (upperArm cfg) * s / 2, vec_y = 0 \<rparr>,
              connect cfg ''rightUpperArm'' ''rightLowerArm''
                \<lparr> vec_x = height (upperArm cfg) * s / 2, vec_y = 0 \<rparr>
                \<lparr> vec_x = - height (lowerArm cfg) * s / 2, vec_y = 0 \<rparr>,
              connect cfg ''rightLowerArm'' ''rightHand''
                \<lparr> vec_x = height (lowerArm cfg) * s / 2, vec_y = 0 \<rparr>
                \<lparr> vec_x = - width (hand cfg) * s / 2, vec_y = 0 \<rparr>,
              \<comment> \<open>left hip, knee, ankle\<close>
              connect cfg ''pelvis'' ''leftUpperLeg''
                \<lparr> vec_x = - width (pelvis cfg) * s / 4, vec_y = height (pelvis cfg) * s / 2 \<rparr>
                \<lparr> vec_x = 0, vec_y = - height (upperLeg cfg) * s / 2 \<rparr>,
              connect cfg ''leftUpperLeg'' ''leftLowerLeg''
                \<lparr> vec_x = 0, vec_y = height (upperLeg cfg) * s / 2 \<rparr>
                \<lparr> vec_x = 0, vec_y = - height (lowerLeg cfg) * s / 2 \<rparr>,
              connect cfg ''leftLowerLeg'' ''leftFoot''
                \<lparr> vec_x = 0, vec_y = height (lowerLeg cfg) * s / 2 \<rparr>
                \<lparr> vec_x = - 4 * s, vec_y = - height (foot cfg) * s / 2 \<rparr>,
              \<comment> \<open>right hip, knee, ankle\<close>
              connect cfg ''pelvis'' ''rightUpperLeg''
                \<lparr> vec_x = width (pelvis cfg) * s / 4, vec_y = height (pelvis cfg) * s / 2 \<rparr>
                \<lparr> vec_x = 0, vec_y = - height (upperLeg cfg) * s / 2 \<rparr>,
              connect cfg ''rightUpperLeg'' ''rightLowerLeg''
                \<lparr> vec_x = 0, vec_y = height (upperLeg cfg) * s / 2 \<rparr>
                \<lparr> vec_x = 0, vec_y = - height (lowerLeg cfg) * s / 2 \<rparr>,
              connect cfg ''rightLowerLeg'' ''rightFoot''
                \<lparr> vec_x = 0, vec_y = height (lowerLeg cfg) * s / 2 \<rparr>
                \<lparr> vec_x = - 4 * s, vec_y = - height (foot cfg) * s / 2 \<rparr> ];
          comp = \<lparr> comp_label = ''ragdoll'', comp_bodies = map fst bs, comp_constraints = cs \<rparr>
      in \<lparr> bodies = bs, constraints = cs, composite = comp, config = cfg \<rparr>)"

text \<open>\<open>removeRagdoll(world, ragdoll)\<close>; the world is the list of composites added to it.\<close>

definition removeRagdoll :: "composite list \<Rightarrow> ragdoll option \<Rightarrow> composite list" where
  "removeRagdoll world r =
     (case r of None \<Rightarrow> world | Some rd \<Rightarrow> remove1 (composite rd) world)"

section \<open>Fighter.js\<close>

record fighter =
  fighter_id :: string
  name :: string
  ragdoll :: "ragdoll option"
  spawnPoint :: vec

record fighter_options =
  opt_id :: "string option"
  opt_name :: "string option"
  ragdollConfig :: "ragdoll_options option"

text \<open>
  \<open>createFighter(world, x, y, options)\<close>. \<open>fresh\<close> is the string
  \<open>`fighter_${Date.now()}`\<close>; \<open>||\<close> also replaces the empty string.
\<close>

definition createFighter ::
    "composite list \<Rightarrow> real \<Rightarrow> real \<Rightarrow> fighter_options \<Rightarrow> string \<Rightarrow> composite list \<times> fighter" where
  "createFighter world x y options fresh =
     (let ident = (case opt_id options of None \<Rightarrow> fresh | Some i \<Rightarrow> if i = [] then fresh else i);
          nm = (case opt_name options of None \<Rightarrow> ''Fighter'' | Some n \<Rightarrow> if n = [] then ''Fighter'' else n);
          rd = createRagdoll x y (or_default (ragdollConfig options) no_options);
          world1 = world @ [composite rd]
      in (world1, \<lparr> fighter_id = ident, name = nm, ragdoll = Some rd,
                    spawnPoint = \<lparr> vec_x = x, vec_y = y \<rparr> \<rparr>))"

definition removeFighter :: "composite list \<Rightarrow> fighter option \<Rightarrow> composite list" where
  "removeFighter world f =
     (case f of None \<Rightarrow> world
      | Some ft \<Rightarrow> (case ragdoll ft of None \<Rightarrow> world | Some rd \<Rightarrow> removeRagdoll world (Some rd)))"

text \<open>
  What a fighter is made of: its segments (\<open>Object.values(bodies)\<close>), their keys, and
  its joints (the constraints of its ragdoll). A fighter without a ragdoll has none.
\<close>

definition segments :: "fighter option \<Rightarrow> body list" where
  "segments f =
     (case f of None \<Rightarrow> []
      | Some ft \<Rightarrow> (case ragdoll ft of None \<Rightarrow> [] | Some rd \<Rightarrow> map snd (bodies rd)))"

definition segment_names :: "fighter option \<Rightarrow> string list" where
  "segment_names f =
     (case f of None \<Rightarrow> []
      | Some ft \<Rightarrow> (case ragdoll ft of None \<Rightarrow> [] | Some rd \<Rightarrow> map fst (bodies rd)))"

definition joints :: "fighter option \<Rightarrow> constraint list" where
  "joints f =
     (case f of None \<Rightarrow> []
      | Some ft \<Rightarrow> (case ragdoll ft of None \<Rightarrow> [] | Some rd \<Rightarrow> constraints rd))"

section \<open>AIBrain.js\<close>

text \<open>
  The source holds two listings of AIBrain.js. They share the data, the distance
  thresholds and the state decision. The second listing damps and clamps the horizontal
  velocity only and also brakes a fighter whose AI is switched off; its definitions carry
  the source's names. The definitions of the first listing end in \<open>_v1\<close>.

  An AI controller refers to its fighter and to its target. The model holds both by
  value: an evaluation returns the controller with the fighter as the evaluation left it.
\<close>

datatype ai_mode = IDLE | APPROACH

record ai =
  fighter :: "fighter option"
  target :: "fighter option"
  state :: ai_mode
  enabled :: bool
  lastDistance :: real

text \<open>\<open>AI_CONFIG\<close>, the fields both listings have with the same value.\<close>

definition approachDistance :: real where
  "approachDistance = 150"

definition idleDistance :: real where
  "idleDistance = 80"

text \<open>\<open>AI_CONFIG\<close> of the second listing.\<close>

definition moveForce :: real where
  "moveForce = 0.012"

definition maxVx :: real where
  "maxVx = 4"

definition idleDamping :: real where
  "idleDamping = 0.75"

definition disabledDamping :: real where
  "disabledDamping = 0.80"

text \<open>\<open>AI_CONFIG\<close> of the first listing.\<close>

definition moveForce_v1 :: real where
  "moveForce_v1 = 0.008"

definition maxVelocity :: real where
  "maxVelocity = 5"

definition brakingFactor :: real where
  "brakingFactor = 0.85"

text \<open>The module state: the map \<open>aiInstances\<close> in insertion order, and the tick timer.\<close>

record ai_module =
  aiInstances :: "(string \<times> ai) list"
  tickTimer :: bool
  tickCallback :: bool

text \<open>\<open>Map.set\<close>: a new key goes last, an old key keeps its place.\<close>

fun map_set :: "'k \<Rightarrow> 'v \<Rightarrow> ('k \<times> 'v) list \<Rightarrow> ('k \<times> 'v) list" where
  "map_set k v [] = [(k, v)]"
| "map_set k v ((k', v') # rest) =
     (if k' = k then (k, v) # rest else (k', v') # map_set k v rest)"

text \<open>
  \<open>createAI(fighter, target)\<close>. The function reads \<open>fighter.id\<close>, so the fighter
  is an object; the target is stored as it comes.
\<close>

definition createAI :: "ai_module \<Rightarrow> fighter \<Rightarrow> fighter option \<Rightarrow> ai \<times> ai_module" where
  "createAI m f tgt =
     (let a = \<lparr> fighter = Some f, target = tgt, state = IDLE, enabled = True, lastDistance = 0 \<rparr>
      in (a, m\<lparr> aiInstances := map_set (fighter_id f) a (aiInstances m) \<rparr>))"

definition clearAllAI :: "ai_module \<Rightarrow> ai_module" where
  "clearAllAI m = m\<lparr> aiInstances := [] \<rparr>"

definition toggleAI :: "ai_module \<Rightarrow> string \<Rightarrow> bool \<times> ai_module" where
  "toggleAI m fighterId =
     (case map_of (aiInstances m) fighterId of
        None \<Rightarrow> (False, m)
      | Some a \<Rightarrow>
          let a1 = a\<lparr> enabled := \<not> enabled a \<rparr>
          in (enabled a1, m\<lparr> aiInstances := map_set fighterId a1 (aiInstances m) \<rparr>))"

definition startAI :: "ai_module \<Rightarrow> bool \<Rightarrow> ai_module" where
  "startAI m onTick = (if tickTimer m then m else m\<lparr> tickCallback := onTick, tickTimer := True \<rparr>)"

definition stopAI :: "ai_module \<Rightarrow> ai_module" where
  "stopAI m = (if tickTimer m then m\<lparr> tickTimer := False, tickCallback := False \<rparr> else m)"

definition resetAI :: "ai_module \<Rightarrow> ai_module" where
  "resetAI m = clearAllAI (stopAI m)"

text \<open>
  \<open>fighter?.ragdoll?.bodies?.pelvis\<close> and the like: the body under a key, if the
  fighter, its ragdoll and the key are all there.
\<close>

definition getBody :: "fighter option \<Rightarrow> string \<Rightarrow> body option" where
  "getBody f k =
     (case f of None \<Rightarrow> None
      | Some ft \<Rightarrow> (case ragdoll ft of None \<Rightarrow> None | Some rd \<Rightarrow> map_of (bodies rd) k))"

text \<open>
  The library calls change a body in place. In the model the changed body is stored back
  under its key.
\<close>

definition put :: "string \<Rightarrow> body \<Rightarrow> (string \<times> body) list \<Rightarrow> (string \<times> body) list" where
  "put k b bs = map (\<lambda>(k', b'). if k' = k then (k', b) else (k', b')) bs"

definition update_bodies ::
    "((string \<times> body) list \<Rightarrow> (string \<times> body) list) \<Rightarrow> fighter option \<Rightarrow> fighter option" where
  "update_bodies g f =
     map_option (\<lambda>ft. ft\<lparr> ragdoll := map_option (\<lambda>rd. rd\<lparr> bodies := g (bodies rd) \<rparr>) (ragdoll ft) \<rparr>) f"

subsection \<open>Second listing\<close>

record debugState =
  vxA :: real
  vxB :: real
  forceApplied :: real

definition clampHorizontalVelocity :: "body \<Rightarrow> real \<Rightarrow> body" where
  "clampHorizontalVelocity b maxV =
     (let vx = vec_x (velocity b)
      in if \<bar>vx\<bar> > maxV
         then Body_setVelocity b \<lparr> vec_x = sgn vx * maxV, vec_y = vec_y (velocity b) \<rparr>
         else b)"

definition dampHorizontalVelocity :: "body \<Rightarrow> real \<Rightarrow> body" where
  "dampHorizontalVelocity b factor =
     Body_setVelocity b \<lparr> vec_x = vec_x (velocity b) * factor, vec_y = vec_y (velocity b) \<rparr>"

text \<open>
  \<open>processAITick(ai, index)\<close>. Only the pelvis of each fighter is tested for presence;
  every path past that test dereferences the torso, and throws if there is none.
\<close>

definition processAITick :: "debugState \<Rightarrow> ai \<Rightarrow> nat \<Rightarrow> js_error + (debugState \<times> ai)" where
  "processAITick dbg a index =
     (case (getBody (fighter a) ''pelvis'', getBody (target a) ''pelvis'') of
        (Some p, Some tp) \<Rightarrow>
          (case getBody (fighter a) ''torso'' of
             None \<Rightarrow> Inl TypeError
           | Some t \<Rightarrow>
               let dbg1 = (if index = 0 then dbg\<lparr> vxA := vec_x (velocity p) \<rparr>
                           else dbg\<lparr> vxB := vec_x (velocity p) \<rparr>)
               in if \<not> enabled a then
                    let p1 = dampHorizontalVelocity p disabledDamping;
                        t1 = dampHorizontalVelocity t disabledDamping
                    in Inr (dbg1, a\<lparr> fighter := update_bodies (put ''torso'' t1 \<circ> put ''pelvis'' p1) (fighter a) \<rparr>)
                  else
                    let myPos = position p;
                        targetPos = position tp;
                        dx = vec_x targetPos - vec_x myPos;
                        dy = vec_y targetPos - vec_y myPos;
                        distance = sqrt (dx * dx + dy * dy);
                        a1 = a\<lparr> lastDistance := distance \<rparr>;
                        a2 = (if distance > approachDistance then a1\<lparr> state := APPROACH \<rparr>
                              else if distance < idleDistance then a1\<lparr> state := IDLE \<rparr>
                              else a1);
                        (p1, t1, dbg2) =
                          (if state a2 = APPROACH then
                             let direction = (if dx > 0 then 1 else - 1);
                                 f = moveForce * direction
                             in (Body_applyForce p (position p) \<lparr> vec_x = f, vec_y = 0 \<rparr>,
                                 Body_applyForce t (position t) \<lparr> vec_x = f * 0.5, vec_y = 0 \<rparr>,
                                 dbg1\<lparr> forceApplied := f \<rparr>)
                           else if state a2 = IDLE then
                             (dampHorizontalVelocity p idleDamping,
                              dampHorizontalVelocity t idleDamping,
                              dbg1\<lparr> forceApplied := 0 \<rparr>)
                           else (p, t, dbg1));
                        p2 = clampHorizontalVelocity p1 maxVx;
                        t2 = clampHorizontalVelocity t1 maxVx
                    in Inr (dbg2, a2\<lparr> fighter := update_bodies (put ''torso'' t2 \<circ> put ''pelvis'' p2) (fighter a2) \<rparr>))
      | _ \<Rightarrow> Inr (dbg, a))"

subsection \<open>First listing\<close>

definition clampVelocity :: "body \<Rightarrow> real \<Rightarrow> body" where
  "clampVelocity b maxVel =
     (let vx = vec_x (velocity b);
          vy = vec_y (velocity b);
          speed = sqrt (vx * vx + vy * vy)
      in if speed > maxVel
         then let scl = maxVel / speed
              in Body_setVelocity b \<lparr> vec_x = vx * scl, vec_y = vy * scl \<rparr>
         else b)"

text \<open>The speed that \<open>clampVelocity\<close> measures: the length of a velocity vector.\<close>

definition speed :: "vec \<Rightarrow> real" where
  "speed v = sqrt (vec_x v * vec_x v + vec_y v * vec_y v)"

text \<open>
  \<open>processAITick(ai)\<close> of the first listing. A switched-off AI returns before anything
  is read. Past the pelvis test every path ends in \<open>clampVelocity\<close> of the torso, and
  throws if there is none.
\<close>

definition processAITick_v1 :: "ai \<Rightarrow> js_error + ai" where
  "processAITick_v1 a =
     (if \<not> enabled a then Inr a
      else
        case (getBody (fighter a) ''pelvis'', getBody (target a) ''pelvis'') of
          (Some p, Some tp) \<Rightarrow>
            (case getBody (fighter a) ''torso'' of
               None \<Rightarrow> Inl TypeError
             | Some t \<Rightarrow>
                 let myPos = position p;
                     targetPos = position tp;
                     dx = vec_x targetPos - vec_x myPos;
                     dy = vec_y targetPos - vec_y myPos;
                     distance = sqrt (dx * dx + dy * dy);
                     a1 = a\<lparr> lastDistance := distance \<rparr>;
                     a2 = (if distance > approachDistance then a1\<lparr> state := APPROACH \<rparr>
                           else if distance < idleDistance then a1\<lparr> state := IDLE \<rparr>
                           else a1);
                     (p1, t1) =
                       (if state a2 = APPROACH then
                          let direction = (if dx > 0 then 1 else - 1);
                              f = moveForce_v1 * direction
                          in (Body_applyForce p (position p) \<lparr> vec_x = f, vec_y = 0 \<rparr>, t)
                        else if state a2 = IDLE then
                          (Body_setVelocity p \<lparr> vec_x = vec_x (velocity p) * brakingFactor,
                                                vec_y = vec_y (velocity p) \<rparr>,
                           Body_setVelocity t \<lparr> vec_x = vec_x (velocity t) * brakingFactor,
                                                vec_y = vec_y (velocity t) \<rparr>)
                        else (p, t));
                     p2 = clampVelocity p1 maxVelocity;
                     t2 = clampVelocity t1 maxVelocity
                 in Inr (a2\<lparr> fighter := update_bodies (put ''torso'' t2 \<circ> put ''pelvis'' p2) (fighter a2) \<rparr>))
        | _ \<Rightarrow> Inr a)"

text \<open>
  The planar distance between two points: the quantity an evaluation measures between
  the two pelvis segments.
\<close>

definition planar_distance :: "vec \<Rightarrow> vec \<Rightarrow> real" where
  "planar_distance a b = sqrt ((vec_x b - vec_x a)\<^sup>2 + (vec_y b - vec_y a)\<^sup>2)"

section \<open>BalanceAssist.js\<close>

text \<open>\<open>BALANCE_CONFIG\<close>: the damping factor and the two support settings that \<open>applyBalanceAssist\<close> reads.\<close>

definition angularDampFactor :: real where
  "angularDampFactor = 0.85"

definition support_enabled :: bool where
  "support_enabled = True"

definition targetHeightAbovePelvis :: real where
  "targetHeightAbovePelvis = 80"

text \<open>
  The module state that \<open>applyBalanceAssist\<close> touches: the debug record, and the map
  \<open>supportData\<close> from fighter id to that fighter's support constraint (a spring from
  the torso to an anchor point in the world, kept beside the ragdoll, not in it).
\<close>

record balanceDebugState =
  bd_enabled :: bool
  supportActive :: bool
  torsoAngleA :: real
  torsoAngleB :: real
  pelvisYA :: real
  pelvisYB :: real

record support =
  sp_pointA :: vec
  sp_pointB :: vec
  sp_stiffness :: real
  sp_damping :: real
  sp_length :: real

record balance =
  balanceDebug :: balanceDebugState
  supportData :: "(string \<times> support) list"

definition radToDeg :: "real \<Rightarrow> real" where
  "radToDeg rad = rad * (180 / pi)"

text \<open>
  \<open>normalizeAngle\<close> is two loops, one after the other:
  \<open>while (angle > Math.PI) angle -= 2 * Math.PI\<close> and
  \<open>while (angle < -Math.PI) angle += 2 * Math.PI\<close>.
\<close>

function lower_angle :: "real \<Rightarrow> real" where
  "lower_angle a = (if a > pi then lower_angle (a - 2 * pi) else a)"
  by pat_completeness auto
termination
proof (relation "measure (\<lambda>a. nat \<lceil>a / (2 * pi)\<rceil>)")
  show "wf (measure (\<lambda>a. nat \<lceil>a / (2 * pi)\<rceil>))" by simp
next
  fix a :: real
  assume gt: "pi < a"
  have "(a - 2 * pi) / (2 * pi) = a / (2 * pi) - 1"
    by (simp add: diff_divide_distrib)
  then have c: "\<lceil>(a - 2 * pi) / (2 * pi)\<rceil> = \<lceil>a / (2 * pi)\<rceil> - 1"
    by simp
  have "0 < a" using gt pi_gt_zero by linarith
  then have "0 < a / (2 * pi)" using pi_gt_zero by simp
  then have "1 \<le> \<lceil>a / (2 * pi)\<rceil>" by linarith
  with c show "(a - 2 * pi, a) \<in> measure (\<lambda>a. nat \<lceil>a / (2 * pi)\<rceil>)"
    by simp
qed

function raise_angle :: "real \<Rightarrow> real" where
  "raise_angle a = (if a < - pi then raise_angle (a + 2 * pi) else a)"
  by pat_completeness auto
termination
proof (relation "measure (\<lambda>a. nat \<lceil>- a / (2 * pi)\<rceil>)")
  show "wf (measure (\<lambda>a. nat \<lceil>- a / (2 * pi)\<rceil>))" by simp
next
  fix a :: real
  assume lt: "a < - pi"
  have "- (a + 2 * pi) / (2 * pi) = - a / (2 * pi) - 1"
    by (simp add: field_simps)
  then have c: "\<lceil>- (a + 2 * pi) / (2 * pi)\<rceil> = \<lceil>- a / (2 * pi) - 1\<rceil>"
    by (rule arg_cong)
  have d: "\<lceil>- a / (2 * pi) - 1\<rceil> = \<lceil>- a / (2 * pi)\<rceil> - 1"
    by (rule ceiling_diff_one)
  have "0 < - a" using lt pi_gt_zero by linarith
  moreover have "0 < 2 * pi" using pi_gt_zero by simp
  ultimately have "0 < - a / (2 * pi)" by (rule divide_pos_pos)
  then have "1 \<le> \<lceil>- a / (2 * pi)\<rceil>" by linarith
  with c d show "(a + 2 * pi, a) \<in> measure (\<lambda>a. nat \<lceil>- a / (2 * pi)\<rceil>)"
    by (simp only: in_measure)
qed

declare lower_angle.simps [simp del] raise_angle.simps [simp del]

definition normalizeAngle :: "real \<Rightarrow> real" where
  "normalizeAngle a = raise_angle (lower_angle a)"

text \<open>\<open>updateSupportConstraint(fighter, index)\<close>: the anchor follows the pelvis.\<close>

definition updateSupportConstraint :: "balance \<Rightarrow> fighter \<Rightarrow> nat \<Rightarrow> balance" where
  "updateSupportConstraint m ft index =
     (case map_of (supportData m) (fighter_id ft) of
        None \<Rightarrow> m
      | Some c \<Rightarrow>
          (case getBody (Some ft) ''pelvis'' of
             None \<Rightarrow> m
           | Some p \<Rightarrow>
               let anchorY = vec_y (position p) - targetHeightAbovePelvis
               in m\<lparr> supportData :=
                      map_set (fighter_id ft)
                        (c\<lparr> sp_pointB := \<lparr> vec_x = vec_x (position p), vec_y = anchorY \<rparr> \<rparr>)
                        (supportData m) \<rparr>))"

text \<open>
  \<open>applyBalanceAssist(fighter, index)\<close>: nothing happens unless the fighter has a
  torso and a pelvis; otherwise the angular velocity of both is damped and the support
  anchor is moved.
\<close>

definition applyBalanceAssist :: "balance \<Rightarrow> fighter option \<Rightarrow> nat \<Rightarrow> balance \<times> fighter option" where
  "applyBalanceAssist m f index =
     (case (f, getBody f ''torso'', getBody f ''pelvis'') of
        (Some ft, Some t, Some p) \<Rightarrow>
          let torsoAngle = normalizeAngle (angle t);
              torsoAngleDeg = radToDeg torsoAngle;
              d = balanceDebug m;
              d1 = (if index = 0
                    then d\<lparr> torsoAngleA := torsoAngleDeg, pelvisYA := vec_y (position p) \<rparr>
                    else d\<lparr> torsoAngleB := torsoAngleDeg, pelvisYB := vec_y (position p) \<rparr>);
              m1 = m\<lparr> balanceDebug := d1 \<rparr>;
              currentOmega = angularVelocity t;
              dampedOmega = currentOmega * angularDampFactor;
              t1 = Body_setAngularVelocity t dampedOmega;
              p1 = Body_setAngularVelocity p (angularVelocity p * angularDampFactor);
              ft1 = ft\<lparr> ragdoll := map_option
                      (\<lambda>rd. rd\<lparr> bodies := (put ''pelvis'' p1 \<circ> put ''torso'' t1) (bodies rd) \<rparr>)
                      (ragdoll ft) \<rparr>
          in (if support_enabled then updateSupportConstraint m1 ft1 index else m1, Some ft1)
      | _ \<Rightarrow> (m, f))"

section \<open>index.js: spawning the two fighters\<close>

text \<open>\<open>ARENA\<close> of World.js, as \<open>getArenaConfig\<close> returns it.\<close>

definition arena_width :: real where
  "arena_width = 900"

definition arena_height :: real where
  "arena_height = 600"

record game =
  world :: "composite list"
  fighterA :: "fighter option"
  fighterB :: "fighter option"
  brain :: ai_module

text \<open>
  \<open>spawnFighters()\<close>. \<open>freshA\<close> and \<open>freshB\<close> are the identifiers
  \<open>createFighter\<close> would make up if it were given none. The call that hands the two
  fighters to the renderer has no part in the model.
\<close>

definition spawnFighters :: "game \<Rightarrow> string \<Rightarrow> string \<Rightarrow> game" where
  "spawnFighters g freshA freshB =
     (let spawnY = arena_height / 2 - 50;
          world1 = (if fighterA g \<noteq> None then removeFighter (world g) (fighterA g) else world g);
          world2 = (if fighterB g \<noteq> None then removeFighter world1 (fighterB g) else world1);
          brain1 = resetAI (brain g);
          (world3, fA) = createFighter world2 (arena_width * 0.3) spawnY
                           \<lparr> opt_id = Some ''fighter_a'', opt_name = Some ''Fighter A'',
                             ragdollConfig = Some (no_options\<lparr> o_collisionGroup := Some (- 1) \<rparr>) \<rparr>
                           freshA;
          (world4, fB) = createFighter world3 (arena_width * 0.7) spawnY
                           \<lparr> opt_id = Some ''fighter_b'', opt_name = Some ''Fighter B'',
                             ragdollConfig = Some (no_options\<lparr> o_collisionGroup := Some (- 2) \<rparr>) \<rparr>
                           freshB;
          brain2 = snd (createAI brain1 fA (Some fB));
          brain3 = snd (createAI brain2 fB (Some fA));
          brain4 = startAI brain3 True
      in \<lparr> world = world4, fighterA = Some fA, fighterB = Some fB, brain = brain4 \<rparr>)"

section \<open>ImpactTracker.js\<close>

text \<open>
  A collision pair of the library holds the two bodies in contact. Each is a body with the
  mass the library has computed for it.
\<close>

record massive_body = body +
  mass :: real

record pair =
  bodyA :: massive_body
  bodyB :: massive_body

text \<open>\<open>calculateImpact(pair)\<close>; \<open>mass || 1\<close> replaces a mass of zero by one.\<close>

definition calculateImpact :: "pair \<Rightarrow> real" where
  "calculateImpact pr =
     (let velA = velocity (bodyA pr);
          velB = velocity (bodyB pr);
          relVelX = vec_x velA - vec_x velB;
          relVelY = vec_y velA - vec_y velB;
          relSpeed = sqrt (relVelX * relVelX + relVelY * relVelY);
          massA = (if mass (bodyA pr) = 0 then 1 else mass (bodyA pr));
          massB = (if mass (bodyB pr) = 0 then 1 else mass (bodyB pr));
          combinedMass = massA + massB;
          impact = relSpeed * combinedMass * 10
      in impact)"

text \<open>
  The two quantities the impact score is made of, read off a pair: the length of the
  difference of the two velocities, and the sum of the two masses as the tracker counts
  them.
\<close>

definition relative_speed :: "pair \<Rightarrow> real" where
  "relative_speed pr =
     sqrt ((vec_x (velocity (bodyA pr)) - vec_x (velocity (bodyB pr)))\<^sup>2
           + (vec_y (velocity (bodyA pr)) - vec_y (velocity (bodyB pr)))\<^sup>2)"

definition counted_mass :: "massive_body \<Rightarrow> real" where
  "counted_mass b = (if mass b = 0 then 1 else mass b)"

definition combined_mass :: "pair \<Rightarrow> real" where
  "combined_mass pr = counted_mass (bodyA pr) + counted_mass (bodyB pr)"

section \<open>The damage formulas\<close>

text \<open>
  Modelled from the spec: the damage resolver (collision impulse to damage and knockback)
  has no implementation under src/; only the design document BALANCE.md states the
  formulas. The definitions follow section 4.5 of the spec:
  \<open>impactScoreForDamage = collisionImpulse * weaponDamageScale * strengthMultiplier\<close>,
  \<open>damage = impactScoreForDamage - armorDefense\<close> floored at zero, and
  \<open>knockback = collisionImpulse * knockbackScale * (1 - armorKnockbackReduction)\<close>.
\<close>

definition impactScoreForDamage :: "real \<Rightarrow> real \<Rightarrow> real \<Rightarrow> real" where
  "impactScoreForDamage collisionImpulse weaponDamageScale strengthMultiplier =
     collisionImpulse * weaponDamageScale * strengthMultiplier"

definition damage :: "real \<Rightarrow> real \<Rightarrow> real \<Rightarrow> real \<Rightarrow> real" where
  "damage collisionImpulse weaponDamageScale strengthMultiplier armorDefense =
     max 0 (impactScoreForDamage collisionImpulse weaponDamageScale strengthMultiplier
            - armorDefense)"

definition knockback :: "real \<Rightarrow> real \<Rightarrow> real \<Rightarrow> real" where
  "knockback collisionImpulse knockbackScale armorKnockbackReduction =
     collisionImpulse * knockbackScale * (1 - armorKnockbackReduction)"

section \<open>Example values\<close>

text \<open>
  An integrator that counts its calls, and simulator states around it: one running with
  an empty accumulator, one running with more than a tick's worth of time accumulated,
  and one stopped, with an engine in place, as it is before \<open>start\<close>.
\<close>

definition count_update :: "nat \<Rightarrow> real \<Rightarrow> nat" where
  "count_update e dt = Suc e"

definition running_sim :: "nat simulator" where
  "running_sim =
     \<lparr> engine = Some 0, isRunning = True, isPaused = False, accumulator = 0, lastTime = 1,
       frameCount = 0, fps = 0, fpsLastTime = 0, tickCount = 0, onRender = True,
       onReset = True, rendered = [], resets = 0 \<rparr>"

definition backlog_sim :: "nat simulator" where
  "backlog_sim = running_sim\<lparr> accumulator := 100 \<rparr>"

definition stopped_sim :: "nat simulator" where
  "stopped_sim = running_sim\<lparr> isRunning := False, lastTime := 0 \<rparr>"


text \<open>
  A fighter built by \<open>createFighter\<close> at height 250 in a given collision group, the
  same fighter with its pelvis and torso set in motion, and AI controllers over such
  fighters: one whose target is 100 away (inside the band between the thresholds), one
  whose target is 30 away while the fighter drifts, and one whose target is 30 away while
  the fighter's pelvis falls at 10 per tick and its torso moves at more than 11 per tick.
\<close>

definition fighter_at :: "real \<Rightarrow> int \<Rightarrow> fighter" where
  "fighter_at x g =
     snd (createFighter [] x 250
            \<lparr> opt_id = None, opt_name = None,
              ragdollConfig = Some (no_options\<lparr> o_collisionGroup := Some g \<rparr>) \<rparr>
            ''fighter_0'')"

definition moving :: "vec \<Rightarrow> vec \<Rightarrow> fighter \<Rightarrow> fighter" where
  "moving vp vt f =
     f\<lparr> ragdoll :=
          map_option (\<lambda>rd. rd\<lparr> bodies :=
            map (\<lambda>(k, b). if k = ''pelvis'' then (k, Body_setVelocity b vp)
                          else if k = ''torso'' then (k, Body_setVelocity b vt)
                          else (k, b)) (bodies rd) \<rparr>) (ragdoll f) \<rparr>"

definition dbg0 :: debugState where
  "dbg0 = \<lparr> vxA = 0, vxB = 0, forceApplied = 0 \<rparr>"

definition band_ai :: ai where
  "band_ai =
     \<lparr> fighter = Some (fighter_at 270 (- 1)), target = Some (fighter_at 370 (- 2)),
       state = APPROACH, enabled = True, lastDistance = 200 \<rparr>"

definition close_ai :: ai where
  "close_ai =
     \<lparr> fighter = Some (moving \<lparr> vec_x = 2, vec_y = 3 \<rparr> \<lparr> vec_x = - 8, vec_y = 1 \<rparr>
                         (fighter_at 270 (- 1))),
       target = Some (fighter_at 300 (- 2)),
       state = APPROACH, enabled = True, lastDistance = 200 \<rparr>"

definition fast_ai :: ai where
  "fast_ai =
     \<lparr> fighter = Some (moving \<lparr> vec_x = 0, vec_y = 10 \<rparr> \<lparr> vec_x = 160 / 17, vec_y = 6 \<rparr>
                         (fighter_at 270 (- 1))),
       target = Some (fighter_at 300 (- 2)),
       state = APPROACH, enabled = True, lastDistance = 200 \<rparr>"

text \<open>A hand striking a head: a relative speed of 10, masses 1 and 1.\<close>

definition strike_pair :: pair where
  "strike_pair =
     \<lparr> bodyA = \<lparr> label = ''leftHand'', shape = Rectangle 8 8,
                 position = \<lparr> vec_x = 300, vec_y = 250 \<rparr>,
                 velocity = \<lparr> vec_x = 6, vec_y = 0 \<rparr>,
                 force = \<lparr> vec_x = 0, vec_y = 0 \<rparr>,
                 torque = 0, angle = 0, angularVelocity = 0, isStatic = False,
                 b_friction = 0.8, b_frictionStatic = 0.9, b_frictionAir = 0.02,
                 b_restitution = 0.1,
                 collisionFilter = \<lparr> cf_group = - 1, cf_category = 1, cf_mask = 4294967295 \<rparr>,
                 mass = 1 \<rparr>,
       bodyB = \<lparr> label = ''head'', shape = Circle 18,
                 position = \<lparr> vec_x = 310, vec_y = 250 \<rparr>,
                 velocity = \<lparr> vec_x = 0, vec_y = 8 \<rparr>,
                 force = \<lparr> vec_x = 0, vec_y = 0 \<rparr>,
                 torque = 0, angle = 0, angularVelocity = 0, isStatic = False,
                 b_friction = 0.8, b_frictionStatic = 0.9, b_frictionAir = 0.02,
                 b_restitution = 0.1,
                 collisionFilter = \<lparr> cf_group = - 2, cf_category = 1, cf_mask = 4294967295 \<rparr>,
                 mass = 1 \<rparr> \<rparr>"

text \<open>
  A game before the first spawn; ragdoll options with a negative density and a negative
  joint stiffness; ragdoll options with a density and a joint stiffness of zero.
\<close>

definition empty_game :: game where
  "empty_game =
     \<lparr> world = [], fighterA = None, fighterB = None,
       brain = \<lparr> aiInstances = [], tickTimer = False, tickCallback = False \<rparr> \<rparr>"

definition bad_options :: ragdoll_options where
  "bad_options =
     no_options\<lparr> o_physics := Some \<lparr> friction = 0.8, frictionStatic = 0.9, frictionAir = 0.02,
                                     restitution = 0.1, density = - 1 \<rparr>,
                  o_constraints := Some \<lparr> stiffness = - 1, damping = 0.3, angularStiffness = 0.1 \<rparr> \<rparr>"

definition zero_options :: ragdoll_options where
  "zero_options =
     no_options\<lparr> o_physics := Some \<lparr> friction = 0.8, frictionStatic = 0.9, frictionAir = 0.02,
                                     restitution = 0.1, density = 0 \<rparr>,
                  o_constraints := Some \<lparr> stiffness = 0, damping = 0.3, angularStiffness = 0.1 \<rparr> \<rparr>"

section \<open>Properties of the rounding\<close>


lemma round_half_even_eqI:
  assumes "\<bar>y - of_int m\<bar> < 1 / 2 \<or> (\<bar>y - of_int m\<bar> = 1 / 2 \<and> even m)"
  shows "round_half_even y = m"
proof -
  consider "of_int m \<le> y" "y < of_int m + 1 / 2"
    | "y < of_int m" "of_int m - 1 / 2 < y"
    | "y = of_int m + 1 / 2" "even m"
    | "y = of_int m - 1 / 2" "even m"
    using assms by (auto simp: abs_if split: if_splits)
  then show ?thesis
  proof cases
    case 1
    then have "\<lfloor>y\<rfloor> = m" by (intro floor_unique) simp_all
    with 1 show ?thesis by (simp add: round_half_even_def Let_def)
  next
    case 2
    then have "\<lfloor>y\<rfloor> = m - 1" by (intro floor_unique) simp_all
    with 2 show ?thesis by (simp add: round_half_even_def Let_def)
  next
    case 3
    then have "\<lfloor>y\<rfloor> = m" by (intro floor_unique) simp_all
    with 3 show ?thesis by (simp add: round_half_even_def Let_def)
  next
    case 4
    then have "\<lfloor>y\<rfloor> = m - 1" by (intro floor_unique) simp_all
    with 4 show ?thesis by (simp add: round_half_even_def Let_def)
  qed
qed

text \<open>
  The double nearest to \<open>x\<close>: a multiple \<open>m * 2 ^ (k - 52)\<close> in the binade \<open>k\<close> of
  \<open>x\<close> that is less than half a unit in the last place away from \<open>x\<close>, or exactly
  half a unit away with \<open>m\<close> even. Rounding changes a number by at most one part in
  \<open>2 ^ 53\<close>.
\<close>

lemma powi_powr: "(2::real) powi k = 2 powr of_int k"
  by (simp add: powr_real_of_int')


lemma binade_eqI:
  assumes "2 powi k \<le> \<bar>x\<bar>" and "\<bar>x\<bar> < 2 powi (k + 1)"
  shows "binade x = k"
proof -
  have pos: "0 < \<bar>x\<bar>"
    using assms(1) zero_less_power_int [of "2::real" k] by linarith
  have "of_int k \<le> log 2 \<bar>x\<bar>"
    using assms(1) pos by (simp add: powi_powr le_log_iff)
  moreover have "log 2 \<bar>x\<bar> < of_int (k + 1)"
    using assms(2) pos by (simp add: powi_powr log_less_iff del: of_int_add)
  ultimately show ?thesis
    unfolding binade_def by (intro floor_unique) simp_all
qed

lemma binary64_eqI:
  assumes "2 powi k \<le> \<bar>x\<bar>" and "\<bar>x\<bar> < 2 powi (k + 1)"
    and "y = of_int m * 2 powi (k - 52)"
    and "\<bar>x - y\<bar> < 2 powi (k - 53) \<or> (\<bar>x - y\<bar> = 2 powi (k - 53) \<and> even m)"
  shows "binary64 x = y"
proof -
  define u :: real where "u = 2 powi (k - 52)"
  have upos: "0 < u" by (simp add: u_def)
  have half: "2 powi (k - 53) = u / 2"
    by (simp add: u_def power_int_diff)
  have x0: "x \<noteq> 0"
  proof
    assume "x = 0"
    with assms(1) have "2 powi k \<le> (0::real)" by simp
    moreover have "(0::real) < 2 powi k" by simp
    ultimately show False by linarith
  qed
  have b: "binade x = k" using assms(1,2) by (rule binade_eqI)
  have "x / u - of_int m = (x - y) / u"
    using upos by (simp add: assms(3) u_def [symmetric] diff_divide_distrib)
  then have d: "\<bar>x / u - of_int m\<bar> = \<bar>x - y\<bar> / u"
    using upos by simp
  have "\<bar>x / u - of_int m\<bar> < 1 / 2 \<or> (\<bar>x / u - of_int m\<bar> = 1 / 2 \<and> even m)"
    using assms(4) upos unfolding d half by (auto simp: field_simps)
  then have "round_half_even (x / u) = m" by (rule round_half_even_eqI)
  then show ?thesis
    using x0 b by (simp add: binary64_def Let_def u_def assms(3))
qed



section \<open>Properties of the simulator\<close>

subsection \<open>The accumulator\<close>

text \<open>
  The tick size and the cap, as doubles: \<open>1000 / 60\<close> is 16.666666666666668 and five
  times that is 83.33333333333334.
\<close>

lemma fixedDelta_value: "fixedDelta = 4691249611844267 / 281474976710656"
  unfolding fixedDelta_def js_div_def
  by (rule binary64_eqI [where k = 4 and m = 4691249611844267]) simp_all































subsection \<open>The forced step\<close>

text \<open>
  Claim C6. With an engine in place, \<open>step\<close> calls the integrator exactly once, with the
  fixed tick size, adds exactly one to the tick counter and leaves the accumulator as it
  was, whatever the accumulator holds.
\<close>

theorem step_forces_one_tick:
  assumes "engine s = Some e"
  shows "engine (step upd s) = Some (upd e fixedDelta)
         \<and> tickCount (step upd s) = tickCount s + 1
         \<and> accumulator (step upd s) = accumulator s"
  using assms by (simp add: step_def pause_def render_def Let_def)

theorem step_forces_one_tick_witness:
  "fixedDelta \<le> accumulator backlog_sim
   \<and> engine (step count_update backlog_sim) = Some 1
   \<and> tickCount (step count_update backlog_sim) = 1
   \<and> accumulator (step count_update backlog_sim) = 100"
  using step_forces_one_tick [of backlog_sim 0 count_update]
  by (simp add: backlog_sim_def running_sim_def count_update_def fixedDelta_value)

text \<open>
  Claim C10, as stated, says that \<open>step\<close> leaves every simulator with an engine paused.
  It does not when the simulator is stopped: \<open>pause\<close> returns at once unless the
  simulator is running.
\<close>

theorem step_stopped_stays_unpaused:
  "engine stopped_sim = Some 0 \<and> \<not> isPaused (step count_update stopped_sim)"
  by (simp add: stopped_sim_def running_sim_def step_def pause_def render_def Let_def)

text \<open>
  Claim C10, amended. With an engine in place, \<open>step\<close> leaves a running simulator
  paused; it leaves a stopped simulator stopped, with the pause flag as it was. In both
  cases the simulator is not free-running (running and not paused) after \<open>step\<close>.
\<close>

theorem step_pauses_running:
  assumes "engine s = Some e"
  shows "(isRunning s \<longrightarrow> isPaused (step upd s))
         \<and> (\<not> isRunning s \<longrightarrow> isPaused (step upd s) = isPaused s)
         \<and> isRunning (step upd s) = isRunning s
         \<and> \<not> (isRunning (step upd s) \<and> \<not> isPaused (step upd s))"
  using assms by (simp add: step_def pause_def render_def Let_def)

theorem step_pauses_running_witness:
  "isRunning running_sim \<and> \<not> isPaused running_sim
   \<and> isPaused (step count_update running_sim)
   \<and> isRunning (step count_update running_sim)"
  using step_pauses_running [of running_sim 0 count_update]
  by (simp add: running_sim_def)

section \<open>Properties of the AI\<close>

subsection \<open>Reading and storing bodies\<close>

lemma sqrt_100: "sqrt 100 = 10"
  by (rule real_sqrt_unique) simp_all

lemma map_of_put:
  "map_of (put k b bs) k' = (if k' = k then map_option (\<lambda>_. b) (map_of bs k) else map_of bs k')"
  by (induction bs) (auto simp: put_def)

lemma map_fst_put: "map fst (put k b bs) = map fst bs"
  by (induction bs) (auto simp: put_def)

lemma getBody_update_bodies:
  "getBody (update_bodies g f) k =
     (case f of None \<Rightarrow> None
      | Some ft \<Rightarrow> (case ragdoll ft of None \<Rightarrow> None | Some rd \<Rightarrow> map_of (g (bodies rd)) k))"
  by (simp add: getBody_def update_bodies_def split: option.splits)

lemma getBody_SomeD:
  assumes "getBody f k = Some b"
  obtains ft rd where "f = Some ft" and "ragdoll ft = Some rd" and "map_of (bodies rd) k = Some b"
  using assms by (auto simp: getBody_def split: option.splits)

lemma getBody_stored:
  assumes "getBody f ''pelvis'' = Some p" and "getBody f ''torso'' = Some t"
  shows "getBody (update_bodies (put ''torso'' t' \<circ> put ''pelvis'' p') f) ''pelvis'' = Some p'"
    and "getBody (update_bodies (put ''torso'' t' \<circ> put ''pelvis'' p') f) ''torso'' = Some t'"
    and "k \<noteq> ''pelvis'' \<Longrightarrow> k \<noteq> ''torso'' \<Longrightarrow>
         getBody (update_bodies (put ''torso'' t' \<circ> put ''pelvis'' p') f) k = getBody f k"
proof -
  from assms(1) obtain ft rd where f: "f = Some ft" "ragdoll ft = Some rd"
    and p: "map_of (bodies rd) ''pelvis'' = Some p"
    by (rule getBody_SomeD)
  from assms(2) f have t: "map_of (bodies rd) ''torso'' = Some t"
    by (simp add: getBody_def)
  show "getBody (update_bodies (put ''torso'' t' \<circ> put ''pelvis'' p') f) ''pelvis'' = Some p'"
    using f p by (simp add: getBody_update_bodies map_of_put)
  show "getBody (update_bodies (put ''torso'' t' \<circ> put ''pelvis'' p') f) ''torso'' = Some t'"
    using f t by (simp add: getBody_update_bodies map_of_put)
  have "getBody f k = map_of (bodies rd) k"
    using f by (simp add: getBody_def)
  then show "k \<noteq> ''pelvis'' \<Longrightarrow> k \<noteq> ''torso'' \<Longrightarrow>
         getBody (update_bodies (put ''torso'' t' \<circ> put ''pelvis'' p') f) k = getBody f k"
    using f by (simp add: getBody_update_bodies map_of_put)
qed

lemma state_decision:
  assumes "enabled a"
    and "getBody (fighter a) ''pelvis'' = Some p"
    and "getBody (target a) ''pelvis'' = Some q"
    and "getBody (fighter a) ''torso'' = Some t"
  shows "\<exists>dbg' a'. processAITick dbg a i = Inr (dbg', a')
           \<and> lastDistance a' = planar_distance (position p) (position q)
           \<and> state a' = (if planar_distance (position p) (position q) > 150 then APPROACH
                          else if planar_distance (position p) (position q) < 80 then IDLE
                          else state a)"
  using assms
  by (simp add: processAITick_def Let_def planar_distance_def power2_eq_square
        approachDistance_def idleDistance_def split_def)

lemma state_decision_v1:
  assumes "enabled a"
    and "getBody (fighter a) ''pelvis'' = Some p"
    and "getBody (target a) ''pelvis'' = Some q"
    and "getBody (fighter a) ''torso'' = Some t"
  shows "\<exists>a'. processAITick_v1 a = Inr a'
           \<and> lastDistance a' = planar_distance (position p) (position q)
           \<and> state a' = (if planar_distance (position p) (position q) > 150 then APPROACH
                          else if planar_distance (position p) (position q) < 80 then IDLE
                          else state a)"
  using assms
  by (simp add: processAITick_v1_def Let_def planar_distance_def power2_eq_square
        approachDistance_def idleDistance_def split_def)


lemma damp_factor:
  "dampHorizontalVelocity b c
     = b\<lparr> velocity := \<lparr> vec_x = c * vec_x (velocity b), vec_y = vec_y (velocity b) \<rparr> \<rparr>"
  by (simp add: dampHorizontalVelocity_def Body_setVelocity_def mult.commute)

lemma damp_then_clamp:
  "\<exists>c. 0 < c \<and> c \<le> 3 / 4
       \<and> clampHorizontalVelocity (dampHorizontalVelocity b idleDamping) maxVx
           = b\<lparr> velocity := \<lparr> vec_x = c * vec_x (velocity b), vec_y = vec_y (velocity b) \<rparr> \<rparr>"
proof (cases "\<bar>vec_x (velocity b) * (3 / 4)\<bar> > 4")
  case False
  then have "clampHorizontalVelocity (dampHorizontalVelocity b idleDamping) maxVx
               = b\<lparr> velocity := \<lparr> vec_x = (3 / 4) * vec_x (velocity b), vec_y = vec_y (velocity b) \<rparr> \<rparr>"
    by (simp add: clampHorizontalVelocity_def dampHorizontalVelocity_def Body_setVelocity_def
          idleDamping_def maxVx_def Let_def)
  then show ?thesis by (intro exI[of _ "3 / 4"]) simp
next
  case True
  let ?v = "vec_x (velocity b)"
  have nz: "?v \<noteq> 0" using True by auto
  have big: "16 / 3 < \<bar>?v\<bar>" using True by (simp add: abs_mult)
  have s: "sgn (?v * (3 / 4)) * 4 = (4 / \<bar>?v\<bar>) * ?v"
    using nz by (simp add: sgn_mult sgn_real_def abs_if)
  have c: "0 < 4 / \<bar>?v\<bar>" "4 / \<bar>?v\<bar> \<le> 3 / 4"
    using big nz by (simp_all add: field_simps)
  have "clampHorizontalVelocity (dampHorizontalVelocity b idleDamping) maxVx
          = b\<lparr> velocity := \<lparr> vec_x = sgn (?v * (3 / 4)) * 4, vec_y = vec_y (velocity b) \<rparr> \<rparr>"
    using True
    by (simp add: clampHorizontalVelocity_def dampHorizontalVelocity_def Body_setVelocity_def
          idleDamping_def maxVx_def Let_def)
  with s c show ?thesis by (intro exI[of _ "4 / \<bar>?v\<bar>"]) simp
qed

lemma tick_disabled:
  assumes "\<not> enabled a"
    and "getBody (fighter a) ''pelvis'' = Some p"
    and "getBody (target a) ''pelvis'' = Some q"
    and "getBody (fighter a) ''torso'' = Some t"
  shows "processAITick dbg a i
           = Inr (if i = 0 then dbg\<lparr> vxA := vec_x (velocity p) \<rparr> else dbg\<lparr> vxB := vec_x (velocity p) \<rparr>,
                  a\<lparr> fighter := update_bodies
                        (put ''torso'' (dampHorizontalVelocity t disabledDamping)
                         \<circ> put ''pelvis'' (dampHorizontalVelocity p disabledDamping)) (fighter a) \<rparr>)"
  using assms by (simp add: processAITick_def Let_def)

lemma tick_idle:
  assumes "enabled a"
    and "getBody (fighter a) ''pelvis'' = Some p"
    and "getBody (target a) ''pelvis'' = Some q"
    and "getBody (fighter a) ''torso'' = Some t"
    and "processAITick dbg a i = Inr (dbg', a')"
    and "state a' = IDLE"
  shows "fighter a' = update_bodies
            (put ''torso'' (clampHorizontalVelocity (dampHorizontalVelocity t idleDamping) maxVx)
             \<circ> put ''pelvis'' (clampHorizontalVelocity (dampHorizontalVelocity p idleDamping) maxVx))
            (fighter a)"
  using assms
  by (auto simp: processAITick_def Let_def split_def split: if_splits)


lemma created_pelvis:
  "\<exists>b. getBody (Some (fighter_at x g)) ''pelvis'' = Some b
       \<and> position b = \<lparr> vec_x = x, vec_y = 285 \<rparr> \<and> velocity b = \<lparr> vec_x = 0, vec_y = 0 \<rparr>"
  by (simp add: fighter_at_def createFighter_def createRagdoll_def Let_def getBody_def
        or_default_def merge_config_def RAGDOLL_CONFIG_def no_options_def
        Bodies_rectangle_def Bodies_circle_def new_body_def)

lemma created_torso:
  "\<exists>b. getBody (Some (fighter_at x g)) ''torso'' = Some b
       \<and> position b = \<lparr> vec_x = x, vec_y = 250 \<rparr> \<and> velocity b = \<lparr> vec_x = 0, vec_y = 0 \<rparr>"
  by (simp add: fighter_at_def createFighter_def createRagdoll_def Let_def getBody_def
        or_default_def merge_config_def RAGDOLL_CONFIG_def no_options_def
        Bodies_rectangle_def Bodies_circle_def new_body_def)

lemma moving_pelvis:
  "\<exists>b. getBody (Some (moving vp vt (fighter_at x g))) ''pelvis'' = Some b
       \<and> position b = \<lparr> vec_x = x, vec_y = 285 \<rparr> \<and> velocity b = vp"
  by (simp add: moving_def fighter_at_def createFighter_def createRagdoll_def Let_def getBody_def
        or_default_def merge_config_def RAGDOLL_CONFIG_def no_options_def
        Bodies_rectangle_def Bodies_circle_def new_body_def Body_setVelocity_def)

lemma moving_torso:
  "\<exists>b. getBody (Some (moving vp vt (fighter_at x g))) ''torso'' = Some b
       \<and> position b = \<lparr> vec_x = x, vec_y = 250 \<rparr> \<and> velocity b = vt"
  by (simp add: moving_def fighter_at_def createFighter_def createRagdoll_def Let_def getBody_def
        or_default_def merge_config_def RAGDOLL_CONFIG_def no_options_def
        Bodies_rectangle_def Bodies_circle_def new_body_def Body_setVelocity_def)

subsection \<open>The state decision\<close>

text \<open>
  Claim C2. An evaluation of an enabled fighter whose own pelvis, whose target's pelvis
  and whose own torso exist returns, records the pelvis-to-pelvis distance, and decides
  the state from it: above 150 the state becomes APPROACH, below 80 it becomes IDLE, and
  from 80 to 150 it stays what it was. So a fighter in APPROACH stays in APPROACH until
  the distance falls below 80. Both listings of AIBrain.js decide the state this way.
\<close>

theorem ai_hysteresis:
  assumes "enabled a"
    and "getBody (fighter a) ''pelvis'' = Some p"
    and "getBody (target a) ''pelvis'' = Some q"
    and "getBody (fighter a) ''torso'' = Some t"
  shows "(\<exists>dbg' a'. processAITick dbg a i = Inr (dbg', a')
            \<and> lastDistance a' = planar_distance (position p) (position q)
            \<and> (150 < planar_distance (position p) (position q) \<longrightarrow> state a' = APPROACH)
            \<and> (planar_distance (position p) (position q) < 80 \<longrightarrow> state a' = IDLE)
            \<and> (80 \<le> planar_distance (position p) (position q)
                 \<and> planar_distance (position p) (position q) \<le> 150 \<longrightarrow> state a' = state a))
       \<and> (\<exists>a'. processAITick_v1 a = Inr a'
            \<and> lastDistance a' = planar_distance (position p) (position q)
            \<and> (150 < planar_distance (position p) (position q) \<longrightarrow> state a' = APPROACH)
            \<and> (planar_distance (position p) (position q) < 80 \<longrightarrow> state a' = IDLE)
            \<and> (80 \<le> planar_distance (position p) (position q)
                 \<and> planar_distance (position p) (position q) \<le> 150 \<longrightarrow> state a' = state a))"
proof (intro conjI)
  from state_decision [OF assms, of dbg i]
  obtain dbg' a' where r: "processAITick dbg a i = Inr (dbg', a')"
      "lastDistance a' = planar_distance (position p) (position q)"
      "state a' = (if planar_distance (position p) (position q) > 150 then APPROACH
                   else if planar_distance (position p) (position q) < 80 then IDLE
                   else state a)"
    by blast
  show "\<exists>dbg' a'. processAITick dbg a i = Inr (dbg', a')
            \<and> lastDistance a' = planar_distance (position p) (position q)
            \<and> (150 < planar_distance (position p) (position q) \<longrightarrow> state a' = APPROACH)
            \<and> (planar_distance (position p) (position q) < 80 \<longrightarrow> state a' = IDLE)
            \<and> (80 \<le> planar_distance (position p) (position q)
                 \<and> planar_distance (position p) (position q) \<le> 150 \<longrightarrow> state a' = state a)"
    using r by (intro exI[of _ dbg'] exI[of _ a']) simp
next
  from state_decision_v1 [OF assms]
  obtain a' where r: "processAITick_v1 a = Inr a'"
      "lastDistance a' = planar_distance (position p) (position q)"
      "state a' = (if planar_distance (position p) (position q) > 150 then APPROACH
                   else if planar_distance (position p) (position q) < 80 then IDLE
                   else state a)"
    by blast
  show "\<exists>a'. processAITick_v1 a = Inr a'
            \<and> lastDistance a' = planar_distance (position p) (position q)
            \<and> (150 < planar_distance (position p) (position q) \<longrightarrow> state a' = APPROACH)
            \<and> (planar_distance (position p) (position q) < 80 \<longrightarrow> state a' = IDLE)
            \<and> (80 \<le> planar_distance (position p) (position q)
                 \<and> planar_distance (position p) (position q) \<le> 150 \<longrightarrow> state a' = state a)"
    using r by (intro exI[of _ a']) simp
qed

theorem ai_hysteresis_witness:
  "enabled band_ai \<and> state band_ai = APPROACH
   \<and> (\<exists>dbg' a'. processAITick dbg0 band_ai 0 = Inr (dbg', a')
          \<and> lastDistance a' = 100 \<and> state a' = APPROACH)
   \<and> (\<exists>a'. processAITick_v1 band_ai = Inr a' \<and> lastDistance a' = 100 \<and> state a' = APPROACH)"
proof -
  obtain p where p: "getBody (fighter band_ai) ''pelvis'' = Some p"
      "position p = \<lparr> vec_x = 270, vec_y = 285 \<rparr>"
    using created_pelvis [of 270 "- 1"] by (auto simp: band_ai_def)
  obtain q where q: "getBody (target band_ai) ''pelvis'' = Some q"
      "position q = \<lparr> vec_x = 370, vec_y = 285 \<rparr>"
    using created_pelvis [of 370 "- 2"] by (auto simp: band_ai_def)
  obtain t where t: "getBody (fighter band_ai) ''torso'' = Some t"
    using created_torso [of 270 "- 1"] by (auto simp: band_ai_def)
  have e: "enabled band_ai" "state band_ai = APPROACH"
    by (simp_all add: band_ai_def)
  have d: "planar_distance (position p) (position q) = 100"
    by (simp add: planar_distance_def p(2) q(2))
  from ai_hysteresis [OF e(1) p(1) q(1) t, of dbg0 0] d e
  show ?thesis by auto
qed


subsection \<open>Damping in the second listing\<close>

text \<open>
  Take an evaluation by the second listing of a fighter whose own pelvis, whose target's
  pelvis and whose own torso exist. It returns. If the AI is switched off, or if the state
  it decides is IDLE, then the pelvis and the torso each come out as they went in except
  for the horizontal velocity, which is multiplied by a positive factor less than one:
  four fifths when the AI is off, at most three quarters in IDLE (three quarters from the
  damping, less when the clamp to \<open>maxVx\<close> cuts further). The vertical velocity, the
  position and every other field of both bodies are unchanged, and so is every other body
  of the fighter.
\<close>

lemma damping_second_listing:
  assumes "getBody (fighter a) ''pelvis'' = Some p"
    and "getBody (target a) ''pelvis'' = Some q"
    and "getBody (fighter a) ''torso'' = Some t"
  shows "\<exists>dbg' a'. processAITick dbg a i = Inr (dbg', a')
           \<and> (\<not> enabled a \<or> state a' = IDLE \<longrightarrow>
                (\<exists>cp ct. 0 < cp \<and> cp < 1 \<and> 0 < ct \<and> ct < 1
                   \<and> (\<not> enabled a \<longrightarrow> cp = 4 / 5 \<and> ct = 4 / 5)
                   \<and> (enabled a \<longrightarrow> cp \<le> 3 / 4 \<and> ct \<le> 3 / 4)
                   \<and> getBody (fighter a') ''pelvis''
                       = Some (p\<lparr> velocity := \<lparr> vec_x = cp * vec_x (velocity p),
                                                vec_y = vec_y (velocity p) \<rparr> \<rparr>)
                   \<and> getBody (fighter a') ''torso''
                       = Some (t\<lparr> velocity := \<lparr> vec_x = ct * vec_x (velocity t),
                                                vec_y = vec_y (velocity t) \<rparr> \<rparr>)
                   \<and> (\<forall>k. k \<noteq> ''pelvis'' \<and> k \<noteq> ''torso'' \<longrightarrow>
                         getBody (fighter a') k = getBody (fighter a) k)))"
proof -
  let ?Q = "\<lambda>f'. \<exists>cp ct. 0 < cp \<and> cp < 1 \<and> 0 < ct \<and> ct < 1
              \<and> (\<not> enabled a \<longrightarrow> cp = 4 / 5 \<and> ct = 4 / 5)
              \<and> (enabled a \<longrightarrow> cp \<le> 3 / 4 \<and> ct \<le> 3 / 4)
              \<and> getBody f' ''pelvis''
                  = Some (p\<lparr> velocity := \<lparr> vec_x = cp * vec_x (velocity p),
                                           vec_y = vec_y (velocity p) \<rparr> \<rparr>)
              \<and> getBody f' ''torso''
                  = Some (t\<lparr> velocity := \<lparr> vec_x = ct * vec_x (velocity t),
                                           vec_y = vec_y (velocity t) \<rparr> \<rparr>)
              \<and> (\<forall>k. k \<noteq> ''pelvis'' \<and> k \<noteq> ''torso'' \<longrightarrow> getBody f' k = getBody (fighter a) k)"
  have stored: "?Q (update_bodies (put ''torso'' t' \<circ> put ''pelvis'' p') (fighter a))"
    if "0 < cp" "cp < 1" "0 < ct" "ct < 1"
      "\<not> enabled a \<longrightarrow> cp = 4 / 5 \<and> ct = 4 / 5" "enabled a \<longrightarrow> cp \<le> 3 / 4 \<and> ct \<le> 3 / 4"
      "p' = p\<lparr> velocity := \<lparr> vec_x = cp * vec_x (velocity p), vec_y = vec_y (velocity p) \<rparr> \<rparr>"
      "t' = t\<lparr> velocity := \<lparr> vec_x = ct * vec_x (velocity t), vec_y = vec_y (velocity t) \<rparr> \<rparr>"
    for cp ct p' t'
  proof (rule exI[of _ cp], rule exI[of _ ct], intro conjI allI impI)
    fix k assume "k \<noteq> ''pelvis'' \<and> k \<noteq> ''torso''"
    then show "getBody (update_bodies (put ''torso'' t' \<circ> put ''pelvis'' p') (fighter a)) k
                 = getBody (fighter a) k"
      using getBody_stored(3) [OF assms(1,3)] by simp
  qed (use that getBody_stored(1,2) [OF assms(1,3)] in simp_all)
  show ?thesis
  proof (cases "enabled a")
    case False
    let ?p' = "dampHorizontalVelocity p disabledDamping"
    let ?t' = "dampHorizontalVelocity t disabledDamping"
    let ?a' = "a\<lparr> fighter := update_bodies (put ''torso'' ?t' \<circ> put ''pelvis'' ?p') (fighter a) \<rparr>"
    let ?d' = "if i = 0 then dbg\<lparr> vxA := vec_x (velocity p) \<rparr> else dbg\<lparr> vxB := vec_x (velocity p) \<rparr>"
    have r: "processAITick dbg a i = Inr (?d', ?a')"
      using False assms by (rule tick_disabled)
    have "?Q (update_bodies (put ''torso'' ?t' \<circ> put ''pelvis'' ?p') (fighter a))"
      using False by (intro stored[of "4 / 5" "4 / 5"]) (simp_all add: damp_factor disabledDamping_def)
    then have "?Q (fighter ?a')" by simp
    with r show ?thesis by (intro exI[of _ ?d'] exI[of _ ?a'] conjI impI)
  next
    case True
    from state_decision [OF True assms, of dbg i]
    obtain dbg' a' where r: "processAITick dbg a i = Inr (dbg', a')" by blast
    have "?Q (fighter a')" if idle: "state a' = IDLE"
    proof -
      let ?p' = "clampHorizontalVelocity (dampHorizontalVelocity p idleDamping) maxVx"
      let ?t' = "clampHorizontalVelocity (dampHorizontalVelocity t idleDamping) maxVx"
      have f: "fighter a' = update_bodies (put ''torso'' ?t' \<circ> put ''pelvis'' ?p') (fighter a)"
        using True assms r idle by (rule tick_idle)
      from damp_then_clamp [of p] obtain cp where cp: "0 < cp" "cp \<le> 3 / 4"
        "?p' = p\<lparr> velocity := \<lparr> vec_x = cp * vec_x (velocity p), vec_y = vec_y (velocity p) \<rparr> \<rparr>"
        by blast
      from damp_then_clamp [of t] obtain ct where ct: "0 < ct" "ct \<le> 3 / 4"
        "?t' = t\<lparr> velocity := \<lparr> vec_x = ct * vec_x (velocity t), vec_y = vec_y (velocity t) \<rparr> \<rparr>"
        by blast
      show ?thesis
        unfolding f using True cp ct by (intro stored[of cp ct]) simp_all
    qed
    then have "\<not> enabled a \<or> state a' = IDLE \<longrightarrow> ?Q (fighter a')"
      using True by simp
    with r show ?thesis by (intro exI[of _ dbg'] exI[of _ a'] conjI)
  qed
qed

subsection \<open>Braking in the first listing\<close>

text \<open>
  The first listing never evaluates a fighter whose AI is switched off. In IDLE it brakes
  the horizontal velocity of pelvis and torso by \<open>brakingFactor\<close> and keeps the vertical
  velocity; after that it clamps the speed of each body: \<open>clampVelocity\<close> leaves a
  body alone while its speed is at most \<open>maxVelocity\<close>, and above that multiplies both
  components of the velocity by \<open>maxVelocity / speed\<close>.
\<close>

lemma clampVelocity_within:
  assumes "sqrt (vec_x (velocity b) * vec_x (velocity b) + vec_y (velocity b) * vec_y (velocity b)) \<le> maxVel"
  shows "clampVelocity b maxVel = b"
  using assms by (simp add: clampVelocity_def Let_def)

lemma clamp_scale:
  "\<exists>c. 0 < c \<and> c \<le> 1
       \<and> c = (if speed (velocity b) \<le> 5 then 1 else 5 / speed (velocity b))
       \<and> clampVelocity b maxVelocity
           = b\<lparr> velocity := \<lparr> vec_x = c * vec_x (velocity b), vec_y = c * vec_y (velocity b) \<rparr> \<rparr>"
proof (cases "speed (velocity b) \<le> 5")
  case True
  then have "clampVelocity b maxVelocity = b"
    by (simp add: clampVelocity_def speed_def maxVelocity_def Let_def)
  with True show ?thesis by (intro exI [of _ 1]) simp
next
  case False
  let ?c = "5 / speed (velocity b)"
  have c: "0 < ?c" "?c < 1" using False by simp_all
  have "clampVelocity b maxVelocity
          = b\<lparr> velocity := \<lparr> vec_x = ?c * vec_x (velocity b), vec_y = ?c * vec_y (velocity b) \<rparr> \<rparr>"
    using False
    by (simp add: clampVelocity_def speed_def maxVelocity_def Let_def Body_setVelocity_def
          mult.commute)
  with c False show ?thesis by (intro exI [of _ ?c]) simp
qed

lemma braking_v1:
  assumes "enabled a"
    and "getBody (fighter a) ''pelvis'' = Some p"
    and "getBody (target a) ''pelvis'' = Some q"
    and "getBody (fighter a) ''torso'' = Some t"
    and "processAITick_v1 a = Inr a'"
    and "state a' = IDLE"
  shows "getBody (fighter a') ''pelvis''
           = Some (clampVelocity
                     (p\<lparr> velocity := \<lparr> vec_x = 17 / 20 * vec_x (velocity p),
                                       vec_y = vec_y (velocity p) \<rparr> \<rparr>) maxVelocity)"
    and "getBody (fighter a') ''torso''
           = Some (clampVelocity
                     (t\<lparr> velocity := \<lparr> vec_x = 17 / 20 * vec_x (velocity t),
                                       vec_y = vec_y (velocity t) \<rparr> \<rparr>) maxVelocity)"
    and "k \<noteq> ''pelvis'' \<Longrightarrow> k \<noteq> ''torso'' \<Longrightarrow> getBody (fighter a') k = getBody (fighter a) k"
proof -
  let ?p' = "clampVelocity (Body_setVelocity p \<lparr> vec_x = vec_x (velocity p) * brakingFactor,
                                                 vec_y = vec_y (velocity p) \<rparr>) maxVelocity"
  let ?t' = "clampVelocity (Body_setVelocity t \<lparr> vec_x = vec_x (velocity t) * brakingFactor,
                                                 vec_y = vec_y (velocity t) \<rparr>) maxVelocity"
  have f: "fighter a' = update_bodies (put ''torso'' ?t' \<circ> put ''pelvis'' ?p') (fighter a)"
    using assms by (auto simp: processAITick_v1_def Let_def split_def split: if_splits)
  have b: "v * brakingFactor = 17 / 20 * v" for v
    by (simp add: brakingFactor_def)
  show "getBody (fighter a') ''pelvis''
           = Some (clampVelocity
                     (p\<lparr> velocity := \<lparr> vec_x = 17 / 20 * vec_x (velocity p),
                                       vec_y = vec_y (velocity p) \<rparr> \<rparr>) maxVelocity)"
    unfolding f b Body_setVelocity_def by (rule getBody_stored(1) [OF assms(2,4)])
  show "getBody (fighter a') ''torso''
           = Some (clampVelocity
                     (t\<lparr> velocity := \<lparr> vec_x = 17 / 20 * vec_x (velocity t),
                                       vec_y = vec_y (velocity t) \<rparr> \<rparr>) maxVelocity)"
    unfolding f b Body_setVelocity_def by (rule getBody_stored(2) [OF assms(2,4)])
  show "k \<noteq> ''pelvis'' \<Longrightarrow> k \<noteq> ''torso'' \<Longrightarrow> getBody (fighter a') k = getBody (fighter a) k"
    unfolding f using getBody_stored(3) [OF assms(2,4)] by simp
qed

lemma idle_v1:
  assumes "enabled a"
    and "getBody (fighter a) ''pelvis'' = Some p"
    and "getBody (target a) ''pelvis'' = Some q"
    and "getBody (fighter a) ''torso'' = Some t"
    and "processAITick_v1 a = Inr a1"
    and "state a1 = IDLE"
  shows "\<exists>sp st. 0 < sp \<and> sp \<le> 1 \<and> 0 < st \<and> st \<le> 1
                    \<and> sp = (if speed \<lparr> vec_x = 17 / 20 * vec_x (velocity p), vec_y = vec_y (velocity p) \<rparr> \<le> 5
                            then 1
                            else 5 / speed \<lparr> vec_x = 17 / 20 * vec_x (velocity p),
                                            vec_y = vec_y (velocity p) \<rparr>)
                    \<and> st = (if speed \<lparr> vec_x = 17 / 20 * vec_x (velocity t), vec_y = vec_y (velocity t) \<rparr> \<le> 5
                            then 1
                            else 5 / speed \<lparr> vec_x = 17 / 20 * vec_x (velocity t),
                                            vec_y = vec_y (velocity t) \<rparr>)
                    \<and> getBody (fighter a1) ''pelvis''
                        = Some (p\<lparr> velocity := \<lparr> vec_x = sp * (17 / 20 * vec_x (velocity p)),
                                                 vec_y = sp * vec_y (velocity p) \<rparr> \<rparr>)
                    \<and> getBody (fighter a1) ''torso''
                        = Some (t\<lparr> velocity := \<lparr> vec_x = st * (17 / 20 * vec_x (velocity t)),
                                                 vec_y = st * vec_y (velocity t) \<rparr> \<rparr>)
                    \<and> (\<forall>k. k \<noteq> ''pelvis'' \<and> k \<noteq> ''torso'' \<longrightarrow>
                          getBody (fighter a1) k = getBody (fighter a) k)"
proof -
  let ?p = "p\<lparr> velocity := \<lparr> vec_x = 17 / 20 * vec_x (velocity p), vec_y = vec_y (velocity p) \<rparr> \<rparr>"
  let ?t = "t\<lparr> velocity := \<lparr> vec_x = 17 / 20 * vec_x (velocity t), vec_y = vec_y (velocity t) \<rparr> \<rparr>"
  from clamp_scale [of ?p] obtain sp where sp: "0 < sp" "sp \<le> 1"
      "sp = (if speed \<lparr> vec_x = 17 / 20 * vec_x (velocity p), vec_y = vec_y (velocity p) \<rparr> \<le> 5
             then 1
             else 5 / speed \<lparr> vec_x = 17 / 20 * vec_x (velocity p), vec_y = vec_y (velocity p) \<rparr>)"
      "clampVelocity ?p maxVelocity
         = p\<lparr> velocity := \<lparr> vec_x = sp * (17 / 20 * vec_x (velocity p)),
                             vec_y = sp * vec_y (velocity p) \<rparr> \<rparr>"
    by auto
  from clamp_scale [of ?t] obtain st where st: "0 < st" "st \<le> 1"
      "st = (if speed \<lparr> vec_x = 17 / 20 * vec_x (velocity t), vec_y = vec_y (velocity t) \<rparr> \<le> 5
             then 1
             else 5 / speed \<lparr> vec_x = 17 / 20 * vec_x (velocity t), vec_y = vec_y (velocity t) \<rparr>)"
      "clampVelocity ?t maxVelocity
         = t\<lparr> velocity := \<lparr> vec_x = st * (17 / 20 * vec_x (velocity t)),
                             vec_y = st * vec_y (velocity t) \<rparr> \<rparr>"
    by auto
  have b: "getBody (fighter a1) ''pelvis''
             = Some (p\<lparr> velocity := \<lparr> vec_x = sp * (17 / 20 * vec_x (velocity p)),
                                      vec_y = sp * vec_y (velocity p) \<rparr> \<rparr>)"
    "getBody (fighter a1) ''torso''
             = Some (t\<lparr> velocity := \<lparr> vec_x = st * (17 / 20 * vec_x (velocity t)),
                                      vec_y = st * vec_y (velocity t) \<rparr> \<rparr>)"
    using braking_v1(1,2) [OF assms] sp(4) st(4) by simp_all
  have k: "\<forall>k. k \<noteq> ''pelvis'' \<and> k \<noteq> ''torso'' \<longrightarrow> getBody (fighter a1) k = getBody (fighter a) k"
    using braking_v1(3) [OF assms] by simp
  show ?thesis
    by (rule exI [of _ sp], rule exI [of _ st]) (use sp(1-3) st(1-3) b k in \<open>intro conjI\<close>)
qed

subsection \<open>Damping\<close>

text \<open>
  Claim C7, as stated, says that whenever the fighter is in IDLE or its AI is disabled the
  horizontal velocity of pelvis and torso is multiplied by a factor less than one and the
  vertical velocity is exactly unchanged. The first of the two listings of
  \<open>processAITick\<close> that the claim cites does neither for a disabled AI, which it
  returns untouched, and in IDLE it clamps the speed after braking: a fighter whose
  pelvis falls at 10 comes out falling at 5, and a torso moving at \<open>(160 / 17, 6)\<close>
  comes out at \<open>(4, 3)\<close>.
\<close>

theorem first_listing_scales_vertical:
  "enabled fast_ai
   \<and> map_option velocity (getBody (fighter fast_ai) ''pelvis'') = Some \<lparr> vec_x = 0, vec_y = 10 \<rparr>
   \<and> map_option velocity (getBody (fighter fast_ai) ''torso'')
       = Some \<lparr> vec_x = 160 / 17, vec_y = 6 \<rparr>
   \<and> \<not> isl (processAITick_v1 fast_ai)
   \<and> state (projr (processAITick_v1 fast_ai)) = IDLE
   \<and> map_option velocity (getBody (fighter (projr (processAITick_v1 fast_ai))) ''pelvis'')
       = Some \<lparr> vec_x = 0, vec_y = 5 \<rparr>
   \<and> map_option velocity (getBody (fighter (projr (processAITick_v1 fast_ai))) ''torso'')
       = Some \<lparr> vec_x = 4, vec_y = 3 \<rparr>
   \<and> processAITick_v1 (fast_ai\<lparr> enabled := False \<rparr>) = Inr (fast_ai\<lparr> enabled := False \<rparr>)"
proof -
  obtain p where p: "getBody (fighter fast_ai) ''pelvis'' = Some p"
      "position p = \<lparr> vec_x = 270, vec_y = 285 \<rparr>" "velocity p = \<lparr> vec_x = 0, vec_y = 10 \<rparr>"
    using moving_pelvis [of "\<lparr> vec_x = 0, vec_y = 10 \<rparr>" "\<lparr> vec_x = 160 / 17, vec_y = 6 \<rparr>" 270 "- 1"]
    by (auto simp: fast_ai_def)
  obtain t where t: "getBody (fighter fast_ai) ''torso'' = Some t"
      "velocity t = \<lparr> vec_x = 160 / 17, vec_y = 6 \<rparr>"
    using moving_torso [of "\<lparr> vec_x = 0, vec_y = 10 \<rparr>" "\<lparr> vec_x = 160 / 17, vec_y = 6 \<rparr>" 270 "- 1"]
    by (auto simp: fast_ai_def)
  obtain q where q: "getBody (target fast_ai) ''pelvis'' = Some q"
      "position q = \<lparr> vec_x = 300, vec_y = 285 \<rparr>"
    using created_pelvis [of 300 "- 2"] by (auto simp: fast_ai_def)
  have e: "enabled fast_ai" by (simp add: fast_ai_def)
  have d: "planar_distance (position p) (position q) = 30"
    by (simp add: planar_distance_def p(2) q(2))
  from state_decision_v1 [OF e p(1) q(1) t(1)] d
  obtain a' where r: "processAITick_v1 fast_ai = Inr a'" and idle: "state a' = IDLE"
    by auto
  have vp: "velocity (clampVelocity
                (p\<lparr> velocity := \<lparr> vec_x = 17 / 20 * vec_x (velocity p),
                                  vec_y = vec_y (velocity p) \<rparr> \<rparr>) maxVelocity)
              = \<lparr> vec_x = 0, vec_y = 5 \<rparr>"
    by (simp add: clampVelocity_def Let_def p(3) maxVelocity_def Body_setVelocity_def sqrt_100)
  have vt: "velocity (clampVelocity
                (t\<lparr> velocity := \<lparr> vec_x = 17 / 20 * vec_x (velocity t),
                                  vec_y = vec_y (velocity t) \<rparr> \<rparr>) maxVelocity)
              = \<lparr> vec_x = 4, vec_y = 3 \<rparr>"
    by (simp add: clampVelocity_def Let_def t(2) maxVelocity_def Body_setVelocity_def sqrt_100)
  have off: "processAITick_v1 (fast_ai\<lparr> enabled := False \<rparr>) = Inr (fast_ai\<lparr> enabled := False \<rparr>)"
    by (simp add: processAITick_v1_def)
  have bp: "map_option velocity (getBody (fighter a') ''pelvis'') = Some \<lparr> vec_x = 0, vec_y = 5 \<rparr>"
    by (simp only: braking_v1(1) [OF e p(1) q(1) t(1) r idle] option.map vp)
  have bt: "map_option velocity (getBody (fighter a') ''torso'') = Some \<lparr> vec_x = 4, vec_y = 3 \<rparr>"
    by (simp only: braking_v1(2) [OF e p(1) q(1) t(1) r idle] option.map vt)
  show ?thesis
    using e off bp bt by (simp add: r idle p(1,3) t(1,2))
qed

text \<open>
  Claim C7, amended. Take an evaluation of a fighter whose own pelvis, whose target's
  pelvis and whose own torso exist. In the listing of \<open>processAITick\<close> that has
  \<open>dampHorizontalVelocity\<close>: if the AI is disabled or the state decided is IDLE, the
  horizontal velocity of the pelvis and of the torso is multiplied by a positive factor
  less than one (four fifths when disabled, at most three quarters in IDLE) and the
  vertical velocity of both bodies, like every other body of the fighter, is exactly
  unchanged. In the other listing: a disabled AI is returned untouched, without any
  damping; in IDLE the horizontal velocity of pelvis and torso is multiplied by
  \<open>brakingFactor\<close>, 17/20, and then both components of the velocity are multiplied by
  the factor of the speed clamp, which is one when the braked speed is at most
  \<open>maxVelocity\<close>, 5, and 5 divided by the braked speed, less than one, otherwise; the
  other bodies are unchanged.
  The velocities are the vectors that the program hands to \<open>Body.setVelocity\<close>.
\<close>

theorem damping_by_listing:
  assumes "getBody (fighter a) ''pelvis'' = Some p"
    and "getBody (target a) ''pelvis'' = Some q"
    and "getBody (fighter a) ''torso'' = Some t"
  shows "(\<exists>dbg' a'. processAITick dbg a i = Inr (dbg', a')
           \<and> (\<not> enabled a \<or> state a' = IDLE \<longrightarrow>
                (\<exists>cp ct. 0 < cp \<and> cp < 1 \<and> 0 < ct \<and> ct < 1
                   \<and> (\<not> enabled a \<longrightarrow> cp = 4 / 5 \<and> ct = 4 / 5)
                   \<and> (enabled a \<longrightarrow> cp \<le> 3 / 4 \<and> ct \<le> 3 / 4)
                   \<and> getBody (fighter a') ''pelvis''
                       = Some (p\<lparr> velocity := \<lparr> vec_x = cp * vec_x (velocity p),
                                                vec_y = vec_y (velocity p) \<rparr> \<rparr>)
                   \<and> getBody (fighter a') ''torso''
                       = Some (t\<lparr> velocity := \<lparr> vec_x = ct * vec_x (velocity t),
                                                vec_y = vec_y (velocity t) \<rparr> \<rparr>)
                   \<and> (\<forall>k. k \<noteq> ''pelvis'' \<and> k \<noteq> ''torso'' \<longrightarrow>
                         getBody (fighter a') k = getBody (fighter a) k))))
       \<and> (\<not> enabled a \<longrightarrow> processAITick_v1 a = Inr a)
       \<and> (enabled a \<longrightarrow>
            (\<exists>a1. processAITick_v1 a = Inr a1
               \<and> (state a1 = IDLE \<longrightarrow>
                    (\<exists>sp st. 0 < sp \<and> sp \<le> 1 \<and> 0 < st \<and> st \<le> 1
                    \<and> sp = (if speed \<lparr> vec_x = 17 / 20 * vec_x (velocity p), vec_y = vec_y (velocity p) \<rparr> \<le> 5
                            then 1
                            else 5 / speed \<lparr> vec_x = 17 / 20 * vec_x (velocity p),
                                            vec_y = vec_y (velocity p) \<rparr>)
                    \<and> st = (if speed \<lparr> vec_x = 17 / 20 * vec_x (velocity t), vec_y = vec_y (velocity t) \<rparr> \<le> 5
                            then 1
                            else 5 / speed \<lparr> vec_x = 17 / 20 * vec_x (velocity t),
                                            vec_y = vec_y (velocity t) \<rparr>)
                    \<and> getBody (fighter a1) ''pelvis''
                        = Some (p\<lparr> velocity := \<lparr> vec_x = sp * (17 / 20 * vec_x (velocity p)),
                                                 vec_y = sp * vec_y (velocity p) \<rparr> \<rparr>)
                    \<and> getBody (fighter a1) ''torso''
                        = Some (t\<lparr> velocity := \<lparr> vec_x = st * (17 / 20 * vec_x (velocity t)),
                                                 vec_y = st * vec_y (velocity t) \<rparr> \<rparr>)
                    \<and> (\<forall>k. k \<noteq> ''pelvis'' \<and> k \<noteq> ''torso'' \<longrightarrow>
                          getBody (fighter a1) k = getBody (fighter a) k)))))"
proof (intro conjI impI)
  show "\<exists>dbg' a'. processAITick dbg a i = Inr (dbg', a')
           \<and> (\<not> enabled a \<or> state a' = IDLE \<longrightarrow>
                (\<exists>cp ct. 0 < cp \<and> cp < 1 \<and> 0 < ct \<and> ct < 1
                   \<and> (\<not> enabled a \<longrightarrow> cp = 4 / 5 \<and> ct = 4 / 5)
                   \<and> (enabled a \<longrightarrow> cp \<le> 3 / 4 \<and> ct \<le> 3 / 4)
                   \<and> getBody (fighter a') ''pelvis''
                       = Some (p\<lparr> velocity := \<lparr> vec_x = cp * vec_x (velocity p),
                                                vec_y = vec_y (velocity p) \<rparr> \<rparr>)
                   \<and> getBody (fighter a') ''torso''
                       = Some (t\<lparr> velocity := \<lparr> vec_x = ct * vec_x (velocity t),
                                                vec_y = vec_y (velocity t) \<rparr> \<rparr>)
                   \<and> (\<forall>k. k \<noteq> ''pelvis'' \<and> k \<noteq> ''torso'' \<longrightarrow>
                         getBody (fighter a') k = getBody (fighter a) k)))"
    using assms by (rule damping_second_listing)
next
  assume "\<not> enabled a"
  then show "processAITick_v1 a = Inr a" by (simp add: processAITick_v1_def)
next
  assume e: "enabled a"
  from state_decision_v1 [OF e assms]
  obtain a1 where r: "processAITick_v1 a = Inr a1" by (elim exE conjE)
  have "state a1 = IDLE \<longrightarrow>
          (\<exists>sp st. 0 < sp \<and> sp \<le> 1 \<and> 0 < st \<and> st \<le> 1
                    \<and> sp = (if speed \<lparr> vec_x = 17 / 20 * vec_x (velocity p), vec_y = vec_y (velocity p) \<rparr> \<le> 5
                            then 1
                            else 5 / speed \<lparr> vec_x = 17 / 20 * vec_x (velocity p),
                                            vec_y = vec_y (velocity p) \<rparr>)
                    \<and> st = (if speed \<lparr> vec_x = 17 / 20 * vec_x (velocity t), vec_y = vec_y (velocity t) \<rparr> \<le> 5
                            then 1
                            else 5 / speed \<lparr> vec_x = 17 / 20 * vec_x (velocity t),
                                            vec_y = vec_y (velocity t) \<rparr>)
                    \<and> getBody (fighter a1) ''pelvis''
                        = Some (p\<lparr> velocity := \<lparr> vec_x = sp * (17 / 20 * vec_x (velocity p)),
                                                 vec_y = sp * vec_y (velocity p) \<rparr> \<rparr>)
                    \<and> getBody (fighter a1) ''torso''
                        = Some (t\<lparr> velocity := \<lparr> vec_x = st * (17 / 20 * vec_x (velocity t)),
                                                 vec_y = st * vec_y (velocity t) \<rparr> \<rparr>)
                    \<and> (\<forall>k. k \<noteq> ''pelvis'' \<and> k \<noteq> ''torso'' \<longrightarrow>
                          getBody (fighter a1) k = getBody (fighter a) k))"
    using idle_v1 [OF e assms r] by (intro impI)
  with r show "\<exists>a1. processAITick_v1 a = Inr a1
               \<and> (state a1 = IDLE \<longrightarrow>
                    (\<exists>sp st. 0 < sp \<and> sp \<le> 1 \<and> 0 < st \<and> st \<le> 1
                    \<and> sp = (if speed \<lparr> vec_x = 17 / 20 * vec_x (velocity p), vec_y = vec_y (velocity p) \<rparr> \<le> 5
                            then 1
                            else 5 / speed \<lparr> vec_x = 17 / 20 * vec_x (velocity p),
                                            vec_y = vec_y (velocity p) \<rparr>)
                    \<and> st = (if speed \<lparr> vec_x = 17 / 20 * vec_x (velocity t), vec_y = vec_y (velocity t) \<rparr> \<le> 5
                            then 1
                            else 5 / speed \<lparr> vec_x = 17 / 20 * vec_x (velocity t),
                                            vec_y = vec_y (velocity t) \<rparr>)
                    \<and> getBody (fighter a1) ''pelvis''
                        = Some (p\<lparr> velocity := \<lparr> vec_x = sp * (17 / 20 * vec_x (velocity p)),
                                                 vec_y = sp * vec_y (velocity p) \<rparr> \<rparr>)
                    \<and> getBody (fighter a1) ''torso''
                        = Some (t\<lparr> velocity := \<lparr> vec_x = st * (17 / 20 * vec_x (velocity t)),
                                                 vec_y = st * vec_y (velocity t) \<rparr> \<rparr>)
                    \<and> (\<forall>k. k \<noteq> ''pelvis'' \<and> k \<noteq> ''torso'' \<longrightarrow>
                          getBody (fighter a1) k = getBody (fighter a) k)))"
    by (intro exI [of _ a1] conjI)
qed

theorem damping_by_listing_witness:
  "\<exists>dbg' a' p' t'. processAITick dbg0 close_ai 0 = Inr (dbg', a')
      \<and> state a' = IDLE
      \<and> getBody (fighter a') ''pelvis'' = Some p'
      \<and> getBody (fighter a') ''torso'' = Some t'
      \<and> vec_y (velocity p') = 3 \<and> vec_y (velocity t') = 1
      \<and> \<bar>vec_x (velocity p')\<bar> < 2 \<and> \<bar>vec_x (velocity t')\<bar> < 8"
proof -
  obtain p where p: "getBody (fighter close_ai) ''pelvis'' = Some p"
      "position p = \<lparr> vec_x = 270, vec_y = 285 \<rparr>" "velocity p = \<lparr> vec_x = 2, vec_y = 3 \<rparr>"
    using moving_pelvis [of "\<lparr> vec_x = 2, vec_y = 3 \<rparr>" "\<lparr> vec_x = - 8, vec_y = 1 \<rparr>" 270 "- 1"]
    by (auto simp: close_ai_def)
  obtain t where t: "getBody (fighter close_ai) ''torso'' = Some t"
      "velocity t = \<lparr> vec_x = - 8, vec_y = 1 \<rparr>"
    using moving_torso [of "\<lparr> vec_x = 2, vec_y = 3 \<rparr>" "\<lparr> vec_x = - 8, vec_y = 1 \<rparr>" 270 "- 1"]
    by (auto simp: close_ai_def)
  obtain q where q: "getBody (target close_ai) ''pelvis'' = Some q"
      "position q = \<lparr> vec_x = 300, vec_y = 285 \<rparr>"
    using created_pelvis [of 300 "- 2"] by (auto simp: close_ai_def)
  have e: "enabled close_ai" by (simp add: close_ai_def)
  have d: "planar_distance (position p) (position q) = 30"
    by (simp add: planar_distance_def p(2) q(2))
  let ?Q = "\<lambda>a'. \<exists>cp ct. 0 < cp \<and> cp < 1 \<and> 0 < ct \<and> ct < 1
        \<and> (\<not> enabled close_ai \<longrightarrow> cp = 4 / 5 \<and> ct = 4 / 5)
        \<and> (enabled close_ai \<longrightarrow> cp \<le> 3 / 4 \<and> ct \<le> 3 / 4)
        \<and> getBody (fighter a') ''pelvis''
            = Some (p\<lparr> velocity := \<lparr> vec_x = cp * vec_x (velocity p), vec_y = vec_y (velocity p) \<rparr> \<rparr>)
        \<and> getBody (fighter a') ''torso''
            = Some (t\<lparr> velocity := \<lparr> vec_x = ct * vec_x (velocity t), vec_y = vec_y (velocity t) \<rparr> \<rparr>)
        \<and> (\<forall>k. k \<noteq> ''pelvis'' \<and> k \<noteq> ''torso'' \<longrightarrow>
              getBody (fighter a') k = getBody (fighter close_ai) k)"
  have "\<exists>dbg' a'. processAITick dbg0 close_ai 0 = Inr (dbg', a')
          \<and> (\<not> enabled close_ai \<or> state a' = IDLE \<longrightarrow> ?Q a')"
    by (rule damping_by_listing [OF p(1) q(1) t(1), of dbg0 0, THEN conjunct1])
  then obtain dbg' where "\<exists>a'. processAITick dbg0 close_ai 0 = Inr (dbg', a')
          \<and> (\<not> enabled close_ai \<or> state a' = IDLE \<longrightarrow> ?Q a')" ..
  then obtain a' where ra: "processAITick dbg0 close_ai 0 = Inr (dbg', a')
          \<and> (\<not> enabled close_ai \<or> state a' = IDLE \<longrightarrow> ?Q a')" ..
  from ra have r: "processAITick dbg0 close_ai 0 = Inr (dbg', a')" by (rule conjunct1)
  from ra have h: "\<not> enabled close_ai \<or> state a' = IDLE \<longrightarrow> ?Q a'" by (rule conjunct2)
  from state_decision [OF e p(1) q(1) t(1), of dbg0 0] r d
  have idle: "state a' = IDLE" by auto
  from h idle have "?Q a'" by (simp only: simp_thms)
  then obtain cp where "\<exists>ct. 0 < cp \<and> cp < 1 \<and> 0 < ct \<and> ct < 1
        \<and> (\<not> enabled close_ai \<longrightarrow> cp = 4 / 5 \<and> ct = 4 / 5)
        \<and> (enabled close_ai \<longrightarrow> cp \<le> 3 / 4 \<and> ct \<le> 3 / 4)
        \<and> getBody (fighter a') ''pelvis''
            = Some (p\<lparr> velocity := \<lparr> vec_x = cp * vec_x (velocity p), vec_y = vec_y (velocity p) \<rparr> \<rparr>)
        \<and> getBody (fighter a') ''torso''
            = Some (t\<lparr> velocity := \<lparr> vec_x = ct * vec_x (velocity t), vec_y = vec_y (velocity t) \<rparr> \<rparr>)
        \<and> (\<forall>k. k \<noteq> ''pelvis'' \<and> k \<noteq> ''torso'' \<longrightarrow>
              getBody (fighter a') k = getBody (fighter close_ai) k)" ..
  then obtain ct where c0: "0 < cp \<and> cp < 1 \<and> 0 < ct \<and> ct < 1
        \<and> (\<not> enabled close_ai \<longrightarrow> cp = 4 / 5 \<and> ct = 4 / 5)
        \<and> (enabled close_ai \<longrightarrow> cp \<le> 3 / 4 \<and> ct \<le> 3 / 4)
        \<and> getBody (fighter a') ''pelvis''
            = Some (p\<lparr> velocity := \<lparr> vec_x = cp * vec_x (velocity p), vec_y = vec_y (velocity p) \<rparr> \<rparr>)
        \<and> getBody (fighter a') ''torso''
            = Some (t\<lparr> velocity := \<lparr> vec_x = ct * vec_x (velocity t), vec_y = vec_y (velocity t) \<rparr> \<rparr>)
        \<and> (\<forall>k. k \<noteq> ''pelvis'' \<and> k \<noteq> ''torso'' \<longrightarrow>
              getBody (fighter a') k = getBody (fighter close_ai) k)" ..
  let ?p' = "p\<lparr> velocity := \<lparr> vec_x = cp * vec_x (velocity p), vec_y = vec_y (velocity p) \<rparr> \<rparr>"
  let ?t' = "t\<lparr> velocity := \<lparr> vec_x = ct * vec_x (velocity t), vec_y = vec_y (velocity t) \<rparr> \<rparr>"
  from c0 have c: "0 < cp" "cp < 1" "0 < ct" "ct < 1"
    "getBody (fighter a') ''pelvis'' = Some ?p'" "getBody (fighter a') ''torso'' = Some ?t'"
    by (simp_all only: simp_thms)
  have v: "vec_y (velocity ?p') = 3" "vec_y (velocity ?t') = 1"
    "\<bar>vec_x (velocity ?p')\<bar> < 2" "\<bar>vec_x (velocity ?t')\<bar> < 8"
    using c(1-4) by (simp_all add: p(3) t(2) abs_mult)
  show ?thesis
    using r idle c(5,6) v
    by (intro exI[of _ dbg'] exI[of _ a'] exI[of _ ?p'] exI[of _ ?t'] conjI)
qed

section \<open>Properties of the impact score\<close>

text \<open>
  Claim C3. The impact score of a collision pair is the relative speed of the two bodies
  times their combined mass times 10, where a mass of zero counts as one; when neither
  mass is zero the combined mass is the sum of the two masses. A pair with relative speed
  10 and combined mass 2 scores exactly 200.
\<close>

theorem impact_score_formula:
  "calculateImpact pr = relative_speed pr * combined_mass pr * 10
   \<and> (mass (bodyA pr) \<noteq> 0 \<and> mass (bodyB pr) \<noteq> 0 \<longrightarrow>
        combined_mass pr = mass (bodyA pr) + mass (bodyB pr))
   \<and> (relative_speed pr = 10 \<and> combined_mass pr = 2 \<longrightarrow> calculateImpact pr = 200)"
  by (simp add: calculateImpact_def relative_speed_def combined_mass_def counted_mass_def
        Let_def power2_eq_square)

theorem impact_score_formula_witness:
  "relative_speed strike_pair = 10 \<and> combined_mass strike_pair = 2
   \<and> calculateImpact strike_pair = 200"
proof -
  have r: "relative_speed strike_pair = 10"
    by (simp add: relative_speed_def strike_pair_def sqrt_100)
  have m: "combined_mass strike_pair = 2"
    by (simp add: combined_mass_def counted_mass_def strike_pair_def)
  from impact_score_formula [of strike_pair] r m show ?thesis by simp
qed

section \<open>Properties of the damage formulas\<close>

text \<open>
  Claim C4. Damage is collision impulse times weapon damage scale times strength
  multiplier, minus armor defense, and zero when that difference is negative; knockback
  is collision impulse times knockback scale times one minus the armor's knockback
  reduction. Collision impulse 500, weapon damage scale 1.0, strength multiplier 1.0 and
  armor defense 3 give damage 497; with knockback scale 1.0, as in the worked example of
  BALANCE.md, and knockback reduction 0.9 the knockback is 50.
\<close>

theorem damage_formulas:
  "damage ci wds sm ad = (if ad \<le> ci * wds * sm then ci * wds * sm - ad else 0)
   \<and> knockback ci ks akr = ci * ks * (1 - akr)
   \<and> damage 500 1.0 1.0 3 = 497
   \<and> knockback 500 1.0 0.9 = 50"
  by (simp add: damage_def impactScoreForDamage_def knockback_def)


section \<open>Properties of the ragdoll\<close>

subsection \<open>What the builder builds\<close>

lemmas ragdoll_unfold =
  createRagdoll_def Let_def Bodies_rectangle_def Bodies_circle_def new_body_def
  bodyOptions_def connect_def Constraint_create_def

lemma createRagdoll_names:
  "map fst (bodies (createRagdoll x y opts))
     = [''head'', ''torso'', ''pelvis'',
        ''leftUpperArm'', ''leftLowerArm'', ''leftHand'',
        ''rightUpperArm'', ''rightLowerArm'', ''rightHand'',
        ''leftUpperLeg'', ''leftLowerLeg'', ''leftFoot'',
        ''rightUpperLeg'', ''rightLowerLeg'', ''rightFoot'']"
  by (simp add: createRagdoll_def Let_def)

lemma createRagdoll_labels:
  "map (label \<circ> snd) (bodies (createRagdoll x y opts)) = map fst (bodies (createRagdoll x y opts))"
  by (simp add: ragdoll_unfold)

lemma createRagdoll_joints:
  "map (\<lambda>c. (c_bodyA c, c_bodyB c)) (constraints (createRagdoll x y opts))
     = [(''head'', ''torso''), (''torso'', ''pelvis''),
        (''torso'', ''leftUpperArm''), (''leftUpperArm'', ''leftLowerArm''),
        (''leftLowerArm'', ''leftHand''),
        (''torso'', ''rightUpperArm''), (''rightUpperArm'', ''rightLowerArm''),
        (''rightLowerArm'', ''rightHand''),
        (''pelvis'', ''leftUpperLeg''), (''leftUpperLeg'', ''leftLowerLeg''),
        (''leftLowerLeg'', ''leftFoot''),
        (''pelvis'', ''rightUpperLeg''), (''rightUpperLeg'', ''rightLowerLeg''),
        (''rightLowerLeg'', ''rightFoot'')]"
  by (simp add: ragdoll_unfold)

lemma createRagdoll_filter:
  "\<forall>b\<in>set (map snd (bodies (createRagdoll x y opts))).
     collisionFilter b = \<lparr> cf_group = or_default (o_collisionGroup opts) (- 1),
                           cf_category = 1, cf_mask = 4294967295 \<rparr>"
  by (simp add: ragdoll_unfold merge_config_def RAGDOLL_CONFIG_def)

lemma createRagdoll_config:
  "config (createRagdoll x y opts) = merge_config RAGDOLL_CONFIG opts"
  by (simp add: createRagdoll_def Let_def)

lemma createRagdoll_stiffness:
  "set (map c_stiffness (constraints (createRagdoll x y opts)))
     = {if stiffness (or_default (o_constraints opts) (constraintSettings RAGDOLL_CONFIG)) = 0
        then Library_default
        else Configured (stiffness (or_default (o_constraints opts)
                                      (constraintSettings RAGDOLL_CONFIG)))}"
  by (simp add: ragdoll_unfold merge_config_def)

lemma mask_admits: "and (4294967295 :: int) 1 \<noteq> 0"
  by simp

lemma canCollide_groups:
  "canCollide \<lparr> cf_group = g, cf_category = 1, cf_mask = 4294967295 \<rparr>
              \<lparr> cf_group = h, cf_category = 1, cf_mask = 4294967295 \<rparr>
     = (if g = h \<and> g \<noteq> 0 then 0 < g else True)"
  by (simp add: canCollide_def)

lemma spawn_segments:
  "segments (fighterA (spawnFighters g ia ib))
     = map snd (bodies (createRagdoll 270 250 (no_options\<lparr> o_collisionGroup := Some (- 1) \<rparr>)))"
  "segments (fighterB (spawnFighters g ia ib))
     = map snd (bodies (createRagdoll 630 250 (no_options\<lparr> o_collisionGroup := Some (- 2) \<rparr>)))"
  by (simp_all add: spawnFighters_def createFighter_def Let_def split_def segments_def
        or_default_def arena_width_def arena_height_def)


lemma stored_topology:
  "segment_names (update_bodies (put k1 b1 \<circ> put k2 b2) f) = segment_names f"
  "joints (update_bodies (put k1 b1 \<circ> put k2 b2) f) = joints f"
  by (simp_all add: segment_names_def joints_def update_bodies_def map_fst_put
        split: option.splits)

lemma tick_topology:
  assumes "processAITick dbg a i = Inr (dbg', a')"
  shows "segment_names (fighter a') = segment_names (fighter a)"
    and "joints (fighter a') = joints (fighter a)"
  using assms
  by (auto simp: processAITick_def Let_def split_def stored_topology
        split: option.splits if_splits)

lemma tick_v1_topology:
  assumes "processAITick_v1 a = Inr a'"
  shows "segment_names (fighter a') = segment_names (fighter a)"
    and "joints (fighter a') = joints (fighter a)"
  using assms
  by (auto simp: processAITick_v1_def Let_def split_def stored_topology
        split: option.splits if_splits)

lemma band_ai_bodies:
  "\<exists>p q t. getBody (fighter band_ai) ''pelvis'' = Some p
     \<and> getBody (target band_ai) ''pelvis'' = Some q
     \<and> getBody (fighter band_ai) ''torso'' = Some t"
  using created_pelvis [of 270 "- 1"] created_pelvis [of 370 "- 2"] created_torso [of 270 "- 1"]
  by (auto simp: band_ai_def)

lemma band_ai_topology:
  "segment_names (fighter band_ai) = map fst (bodies (createRagdoll 270 250 (no_options\<lparr> o_collisionGroup := Some (- 1) \<rparr>)))"
  "joints (fighter band_ai) = constraints (createRagdoll 270 250 (no_options\<lparr> o_collisionGroup := Some (- 1) \<rparr>))"
  by (simp_all add: band_ai_def fighter_at_def createFighter_def Let_def segment_names_def
        joints_def or_default_def)

lemma map_of_map_set: "map_of (map_set k v xs) k = Some v"
  by (induction xs) auto

subsection \<open>Segments and joints\<close>

lemma balance_topology:
  "segment_names (snd (applyBalanceAssist m f i)) = segment_names f"
  "joints (snd (applyBalanceAssist m f i)) = joints f"
  by (auto simp: applyBalanceAssist_def Let_def segment_names_def joints_def map_fst_put
        split: option.splits)

text \<open>
  Claim C8, as stated, counts 14 segments and 13 joints. The builder makes 15 bodies and
  14 constraints: the list in the claim itself (head, torso, pelvis, two upper arms, two
  lower arms, two hands, two upper legs, two lower legs, two feet) has 15 entries, and a
  tree on 15 segments has 14 joints.
\<close>

theorem ragdoll_counts:
  "length (bodies (createRagdoll 0 0 no_options)) = 15
   \<and> length (bodies (createRagdoll 0 0 no_options)) \<noteq> 14
   \<and> length (constraints (createRagdoll 0 0 no_options)) = 14
   \<and> length (constraints (createRagdoll 0 0 no_options)) \<noteq> 13"
  by (simp add: createRagdoll_def Let_def)

text \<open>
  Claim C8, amended. For every origin and every configuration, \<open>createRagdoll\<close>
  builds exactly 15 named segments (head, torso, pelvis, left and right upper arm, lower
  arm and hand, left and right upper leg, lower leg and foot), each labelled with its key,
  joined by exactly 14 joints (neck, spine, two shoulders, two elbows, two wrists, two
  hips, two knees, two ankles), each between the two segments named. The operations of
  this program that act on a ragdoll during a fight, the AI evaluation (in either listing)
  and the balance assist, leave the segments' keys and the joints of the fighter as they
  were.
\<close>

theorem ragdoll_topology:
  "map fst (bodies (createRagdoll x y opts))
     = [''head'', ''torso'', ''pelvis'',
        ''leftUpperArm'', ''leftLowerArm'', ''leftHand'',
        ''rightUpperArm'', ''rightLowerArm'', ''rightHand'',
        ''leftUpperLeg'', ''leftLowerLeg'', ''leftFoot'',
        ''rightUpperLeg'', ''rightLowerLeg'', ''rightFoot'']
   \<and> map (label \<circ> snd) (bodies (createRagdoll x y opts))
       = map fst (bodies (createRagdoll x y opts))
   \<and> length (bodies (createRagdoll x y opts)) = 15
   \<and> map (\<lambda>c. (c_bodyA c, c_bodyB c)) (constraints (createRagdoll x y opts))
     = [(''head'', ''torso''), (''torso'', ''pelvis''),
        (''torso'', ''leftUpperArm''), (''leftUpperArm'', ''leftLowerArm''),
        (''leftLowerArm'', ''leftHand''),
        (''torso'', ''rightUpperArm''), (''rightUpperArm'', ''rightLowerArm''),
        (''rightLowerArm'', ''rightHand''),
        (''pelvis'', ''leftUpperLeg''), (''leftUpperLeg'', ''leftLowerLeg''),
        (''leftLowerLeg'', ''leftFoot''),
        (''pelvis'', ''rightUpperLeg''), (''rightUpperLeg'', ''rightLowerLeg''),
        (''rightLowerLeg'', ''rightFoot'')]
   \<and> length (constraints (createRagdoll x y opts)) = 14
   \<and> segment_names (snd (applyBalanceAssist m f k)) = segment_names f
   \<and> joints (snd (applyBalanceAssist m f k)) = joints f
   \<and> (processAITick dbg a i = Inr (dbg', a') \<longrightarrow>
        segment_names (fighter a') = segment_names (fighter a)
        \<and> joints (fighter a') = joints (fighter a))
   \<and> (processAITick_v1 a = Inr a1 \<longrightarrow>
        segment_names (fighter a1) = segment_names (fighter a)
        \<and> joints (fighter a1) = joints (fighter a))"
proof -
  have n: "length (bodies (createRagdoll x y opts)) = 15"
    using arg_cong [OF createRagdoll_names [of x y opts], of length] by simp
  have j: "length (constraints (createRagdoll x y opts)) = 14"
    using arg_cong [OF createRagdoll_joints [of x y opts], of length] by simp
  show ?thesis
    using createRagdoll_names [of x y opts] createRagdoll_labels [of x y opts]
      createRagdoll_joints [of x y opts] n j balance_topology [of m f k]
      tick_topology [of dbg a i dbg' a'] tick_v1_topology [of a a1]
    by (intro conjI impI) assumption+
qed


theorem ragdoll_topology_witness:
  "(\<exists>dbg' a'. processAITick dbg0 band_ai 0 = Inr (dbg', a')
       \<and> length (segment_names (fighter a')) = 15 \<and> length (joints (fighter a')) = 14)
   \<and> (\<exists>a1. processAITick_v1 band_ai = Inr a1
       \<and> length (segment_names (fighter a1)) = 15 \<and> length (joints (fighter a1)) = 14)"
proof -
  let ?o = "no_options\<lparr> o_collisionGroup := Some (- 1) \<rparr>"
  obtain p q t where b: "getBody (fighter band_ai) ''pelvis'' = Some p"
      "getBody (target band_ai) ''pelvis'' = Some q" "getBody (fighter band_ai) ''torso'' = Some t"
    using band_ai_bodies by (elim exE conjE)
  have e: "enabled band_ai" by (simp add: band_ai_def)
  from state_decision [OF e b, of dbg0 0]
  obtain dbg' a' where r: "processAITick dbg0 band_ai 0 = Inr (dbg', a')" by (elim exE conjE)
  from state_decision_v1 [OF e b]
  obtain a1 where r1: "processAITick_v1 band_ai = Inr a1" by (elim exE conjE)
  note T = ragdoll_topology [where x = 270 and y = 250 and opts = ?o and dbg = dbg0
                              and a = band_ai and i = 0 and dbg' = dbg' and a' = a' and ?a1.0 = a1]
  note T3 = T [THEN conjunct2, THEN conjunct2, THEN conjunct1]
  note T5 = T [THEN conjunct2, THEN conjunct2, THEN conjunct2, THEN conjunct2, THEN conjunct1]
  note T8 = T [THEN conjunct2, THEN conjunct2, THEN conjunct2, THEN conjunct2, THEN conjunct2,
               THEN conjunct2, THEN conjunct2]
  note T6 = T8 [THEN conjunct1, THEN mp, OF r]
  note T7 = T8 [THEN conjunct2, THEN mp, OF r1]
  have n: "length (segment_names (fighter band_ai)) = 15" "length (joints (fighter band_ai)) = 14"
    using T3 T5 by (simp_all add: band_ai_topology)
  have k: "segment_names (fighter a') = segment_names (fighter band_ai)"
    "joints (fighter a') = joints (fighter band_ai)"
    "segment_names (fighter a1) = segment_names (fighter band_ai)"
    "joints (fighter a1) = joints (fighter band_ai)"
    using T6 T7 by simp_all
  have "\<exists>dbg' a'. processAITick dbg0 band_ai 0 = Inr (dbg', a')
       \<and> length (segment_names (fighter a')) = 15 \<and> length (joints (fighter a')) = 14"
    using r n k(1,2) by (intro exI[of _ dbg'] exI[of _ a']) simp
  moreover have "\<exists>a1. processAITick_v1 band_ai = Inr a1
       \<and> length (segment_names (fighter a1)) = 15 \<and> length (joints (fighter a1)) = 14"
    using r1 n k(3,4) by (intro exI[of _ a1]) simp
  ultimately show ?thesis by (rule conjI)
qed

subsection \<open>Collision groups\<close>

text \<open>
  Claim C9, as stated, speaks of the 14 segments of a ragdoll. A spawned fighter has 15
  segments, and the fifteenth, the right foot, carries the group tag like the others.
\<close>

theorem spawned_fighter_segments:
  "length (segments (fighterA (spawnFighters empty_game ''a'' ''b''))) = 15
   \<and> length (segments (fighterA (spawnFighters empty_game ''a'' ''b''))) \<noteq> 14
   \<and> label (segments (fighterA (spawnFighters empty_game ''a'' ''b'')) ! 14) = ''rightFoot''
   \<and> cf_group (collisionFilter (segments (fighterA (spawnFighters empty_game ''a'' ''b'')) ! 14)) = - 1
   \<and> length (segments (fighterB (spawnFighters empty_game ''a'' ''b''))) = 15
   \<and> label (segments (fighterB (spawnFighters empty_game ''a'' ''b'')) ! 14) = ''rightFoot''
   \<and> cf_group (collisionFilter (segments (fighterB (spawnFighters empty_game ''a'' ''b'')) ! 14)) = - 2"
  by (simp add: spawn_segments ragdoll_unfold merge_config_def RAGDOLL_CONFIG_def
        no_options_def or_default_def)

text \<open>
  Claim C9, amended. Every one of the 15 segments of a ragdoll carries the collision group
  of its configuration (the option given, or -1). When that group is negative, no two
  segments of the ragdoll may collide with each other. \<open>spawnFighters\<close> builds
  fighter A in group -1 and fighter B in group -2, each with all of its 15 segments: no
  two segments of the same fighter may collide, and every segment of one fighter may
  collide with every segment of the other.
\<close>

theorem collision_group_correctness:
  "(\<forall>b\<in>set (map snd (bodies (createRagdoll x y opts))).
      cf_group (collisionFilter b) = or_default (o_collisionGroup opts) (- 1))
   \<and> (or_default (o_collisionGroup opts) (- 1) < 0 \<longrightarrow>
        (\<forall>b1\<in>set (map snd (bodies (createRagdoll x y opts))).
         \<forall>b2\<in>set (map snd (bodies (createRagdoll x y opts))).
           \<not> canCollide (collisionFilter b1) (collisionFilter b2)))
   \<and> length (segments (fighterA (spawnFighters g ia ib))) = 15
   \<and> length (segments (fighterB (spawnFighters g ia ib))) = 15
   \<and> (\<forall>b\<in>set (segments (fighterA (spawnFighters g ia ib))). cf_group (collisionFilter b) = - 1)
   \<and> (\<forall>b\<in>set (segments (fighterB (spawnFighters g ia ib))). cf_group (collisionFilter b) = - 2)
   \<and> (\<forall>b1\<in>set (segments (fighterA (spawnFighters g ia ib))).
       \<forall>b2\<in>set (segments (fighterA (spawnFighters g ia ib))).
         \<not> canCollide (collisionFilter b1) (collisionFilter b2))
   \<and> (\<forall>b1\<in>set (segments (fighterB (spawnFighters g ia ib))).
       \<forall>b2\<in>set (segments (fighterB (spawnFighters g ia ib))).
         \<not> canCollide (collisionFilter b1) (collisionFilter b2))
   \<and> (\<forall>b1\<in>set (segments (fighterA (spawnFighters g ia ib))).
       \<forall>b2\<in>set (segments (fighterB (spawnFighters g ia ib))).
         canCollide (collisionFilter b1) (collisionFilter b2)
         \<and> canCollide (collisionFilter b2) (collisionFilter b1))"
proof -
  let ?A = "createRagdoll 270 250 (no_options\<lparr> o_collisionGroup := Some (- 1) \<rparr>)"
  let ?B = "createRagdoll 630 250 (no_options\<lparr> o_collisionGroup := Some (- 2) \<rparr>)"
  have f: "\<forall>b\<in>set (map snd (bodies (createRagdoll x y opts))).
             collisionFilter b = \<lparr> cf_group = or_default (o_collisionGroup opts) (- 1),
                                   cf_category = 1, cf_mask = 4294967295 \<rparr>"
    for x y opts by (rule createRagdoll_filter)
  have fA: "\<forall>b\<in>set (map snd (bodies ?A)).
             collisionFilter b = \<lparr> cf_group = - 1, cf_category = 1, cf_mask = 4294967295 \<rparr>"
    using f [of 270 250 "no_options\<lparr> o_collisionGroup := Some (- 1) \<rparr>"]
    by (simp add: or_default_def)
  have fB: "\<forall>b\<in>set (map snd (bodies ?B)).
             collisionFilter b = \<lparr> cf_group = - 2, cf_category = 1, cf_mask = 4294967295 \<rparr>"
    using f [of 630 250 "no_options\<lparr> o_collisionGroup := Some (- 2) \<rparr>"]
    by (simp add: or_default_def)
  have n: "length (bodies (createRagdoll x y opts)) = 15" for x y opts
    using arg_cong [OF createRagdoll_names [of x y opts], of length] by simp
  have 1: "\<forall>b\<in>set (map snd (bodies (createRagdoll x y opts))).
      cf_group (collisionFilter b) = or_default (o_collisionGroup opts) (- 1)"
    using f [of x y opts] by simp
  have 2: "or_default (o_collisionGroup opts) (- 1) < 0 \<longrightarrow>
        (\<forall>b1\<in>set (map snd (bodies (createRagdoll x y opts))).
         \<forall>b2\<in>set (map snd (bodies (createRagdoll x y opts))).
           \<not> canCollide (collisionFilter b1) (collisionFilter b2))"
    using f [of x y opts] by (simp add: canCollide_groups)
  have 3: "length (segments (fighterA (spawnFighters g ia ib))) = 15"
    "length (segments (fighterB (spawnFighters g ia ib))) = 15"
    by (simp_all add: spawn_segments n)
  have 4: "\<forall>b\<in>set (segments (fighterA (spawnFighters g ia ib))). cf_group (collisionFilter b) = - 1"
    unfolding spawn_segments using fA by simp
  have 5: "\<forall>b\<in>set (segments (fighterB (spawnFighters g ia ib))). cf_group (collisionFilter b) = - 2"
    unfolding spawn_segments using fB by simp
  have 6: "\<forall>b1\<in>set (segments (fighterA (spawnFighters g ia ib))).
       \<forall>b2\<in>set (segments (fighterA (spawnFighters g ia ib))).
         \<not> canCollide (collisionFilter b1) (collisionFilter b2)"
    unfolding spawn_segments using fA by (simp add: canCollide_groups)
  have 7: "\<forall>b1\<in>set (segments (fighterB (spawnFighters g ia ib))).
       \<forall>b2\<in>set (segments (fighterB (spawnFighters g ia ib))).
         \<not> canCollide (collisionFilter b1) (collisionFilter b2)"
    unfolding spawn_segments using fB by (simp add: canCollide_groups)
  have 8: "\<forall>b1\<in>set (segments (fighterA (spawnFighters g ia ib))).
       \<forall>b2\<in>set (segments (fighterB (spawnFighters g ia ib))).
         canCollide (collisionFilter b1) (collisionFilter b2)
         \<and> canCollide (collisionFilter b2) (collisionFilter b1)"
    unfolding spawn_segments using fA fB by (simp add: canCollide_groups)
  show ?thesis
    using 1 2 3 4 5 6 7 8 by (intro conjI)
qed

theorem collision_group_correctness_witness:
  "cf_group (collisionFilter (segments (fighterA (spawnFighters empty_game ''a'' ''b'')) ! 0)) = - 1
   \<and> cf_group (collisionFilter (segments (fighterB (spawnFighters empty_game ''a'' ''b'')) ! 0)) = - 2
   \<and> \<not> canCollide
         (collisionFilter (segments (fighterA (spawnFighters empty_game ''a'' ''b'')) ! 0))
         (collisionFilter (segments (fighterA (spawnFighters empty_game ''a'' ''b'')) ! 5))
   \<and> canCollide
         (collisionFilter (segments (fighterA (spawnFighters empty_game ''a'' ''b'')) ! 5))
         (collisionFilter (segments (fighterB (spawnFighters empty_game ''a'' ''b'')) ! 0))"
proof -
  let ?g = "spawnFighters empty_game ''a'' ''b''"
  note T = collision_group_correctness [of 0 0 no_options empty_game "''a''" "''b''"]
  note Tr = T [THEN conjunct2, THEN conjunct2]
  note la = Tr [THEN conjunct1]
  note lb = Tr [THEN conjunct2, THEN conjunct1]
  note gA = Tr [THEN conjunct2, THEN conjunct2, THEN conjunct1]
  note gB = Tr [THEN conjunct2, THEN conjunct2, THEN conjunct2, THEN conjunct1]
  note sA = Tr [THEN conjunct2, THEN conjunct2, THEN conjunct2, THEN conjunct2, THEN conjunct1]
  note xAB = Tr [THEN conjunct2, THEN conjunct2, THEN conjunct2, THEN conjunct2, THEN conjunct2,
                 THEN conjunct2]
  have m0: "segments (fighterA ?g) ! 0 \<in> set (segments (fighterA ?g))"
    by (rule nth_mem) (simp add: la)
  have m5: "segments (fighterA ?g) ! 5 \<in> set (segments (fighterA ?g))"
    by (rule nth_mem) (simp add: la)
  have n0: "segments (fighterB ?g) ! 0 \<in> set (segments (fighterB ?g))"
    by (rule nth_mem) (simp add: lb)
  show ?thesis
    using gA [rule_format, OF m0] gB [rule_format, OF n0] sA [rule_format, OF m0 m5]
      xAB [rule_format, OF m5 n0, THEN conjunct1]
    by (intro conjI)
qed


subsection \<open>Construction and invalid configuration\<close>

text \<open>
  Claim C5, as stated, says that construction rejects a non-positive density and a
  non-positive joint stiffness. With a density of -1 and a stiffness of -1,
  \<open>createRagdoll\<close> returns a ragdoll with all 15 segments and all 14 joints, every
  joint of stiffness -1, and with that configuration as its \<open>config\<close>;
  \<open>createFighter\<close> returns a fighter around that ragdoll.
\<close>

theorem invalid_configuration_accepted:
  "density (physics (config (createRagdoll 0 0 bad_options))) = - 1
   \<and> stiffness (constraintSettings (config (createRagdoll 0 0 bad_options))) = - 1
   \<and> length (bodies (createRagdoll 0 0 bad_options)) = 15
   \<and> length (constraints (createRagdoll 0 0 bad_options)) = 14
   \<and> set (map c_stiffness (constraints (createRagdoll 0 0 bad_options))) = {Configured (- 1)}
   \<and> ragdoll (snd (createFighter [] 0 0
                     \<lparr> opt_id = None, opt_name = None, ragdollConfig = Some bad_options \<rparr>
                     ''fighter_0''))
       = Some (createRagdoll 0 0 bad_options)"
proof -
  have n: "length (bodies (createRagdoll 0 0 bad_options)) = 15"
    using arg_cong [OF createRagdoll_names [of 0 0 bad_options], of length] by simp
  have j: "length (constraints (createRagdoll 0 0 bad_options)) = 14"
    using arg_cong [OF createRagdoll_joints [of 0 0 bad_options], of length] by simp
  have v: "density (physics (config (createRagdoll 0 0 bad_options))) = - 1"
    "stiffness (constraintSettings (config (createRagdoll 0 0 bad_options))) = - 1"
    by (simp_all add: createRagdoll_config merge_config_def or_default_def bad_options_def
          no_options_def)
  have k: "set (map c_stiffness (constraints (createRagdoll 0 0 bad_options))) = {Configured (- 1)}"
    unfolding createRagdoll_stiffness
    by (simp add: or_default_def bad_options_def no_options_def)
  have f: "ragdoll (snd (createFighter [] 0 0
                     \<lparr> opt_id = None, opt_name = None, ragdollConfig = Some bad_options \<rparr>
                     ''fighter_0''))
       = Some (createRagdoll 0 0 bad_options)"
    by (simp add: createFighter_def Let_def or_default_def)
  show ?thesis using v n j k f by (intro conjI)
qed

text \<open>
  Claim C5, amended. A non-positive density and a non-positive joint stiffness are not
  rejected. For every configuration in which every sub-object is present, whatever
  numbers the material properties and the constraint settings hold,
  \<open>createRagdoll\<close> returns a ragdoll with all 15 segments
  and all 14 joints and with the configuration as given; a stiffness other than zero,
  negative ones included, is the stiffness of every joint, and a stiffness of zero is
  replaced by the default of the physics library. \<open>createFighter\<close> returns a fighter
  around the ragdoll that \<open>createRagdoll\<close> returns. The distance thresholds of the AI
  are not a parameter of \<open>createAI\<close>, which returns an enabled controller in state
  IDLE: they are the constants 80 and 150, the lower below the upper.
\<close>

theorem invalid_numbers_not_rejected:
  "length (bodies (createRagdoll x y opts)) = 15
   \<and> length (constraints (createRagdoll x y opts)) = 14
   \<and> config (createRagdoll x y opts) = merge_config RAGDOLL_CONFIG opts
   \<and> (o_physics opts = Some ph \<longrightarrow> physics (config (createRagdoll x y opts)) = ph)
   \<and> (o_constraints opts = Some cs \<longrightarrow>
        constraintSettings (config (createRagdoll x y opts)) = cs
        \<and> set (map c_stiffness (constraints (createRagdoll x y opts)))
            = {if stiffness cs = 0 then Library_default else Configured (stiffness cs)})
   \<and> ragdoll (snd (createFighter w x y fo fresh))
       = Some (createRagdoll x y (or_default (ragdollConfig fo) no_options))
   \<and> fst (createAI m f tgt)
       = \<lparr> fighter = Some f, target = tgt, state = IDLE, enabled = True, lastDistance = 0 \<rparr>
   \<and> idleDistance = 80 \<and> approachDistance = 150 \<and> idleDistance < approachDistance"
proof -
  have n: "length (bodies (createRagdoll x y opts)) = 15"
    using arg_cong [OF createRagdoll_names [of x y opts], of length] by simp
  have j: "length (constraints (createRagdoll x y opts)) = 14"
    using arg_cong [OF createRagdoll_joints [of x y opts], of length] by simp
  have c: "config (createRagdoll x y opts) = merge_config RAGDOLL_CONFIG opts"
    by (rule createRagdoll_config)
  have ph: "o_physics opts = Some ph \<longrightarrow> physics (config (createRagdoll x y opts)) = ph"
    by (simp add: c merge_config_def or_default_def)
  have cs: "o_constraints opts = Some cs \<longrightarrow>
        constraintSettings (config (createRagdoll x y opts)) = cs
        \<and> set (map c_stiffness (constraints (createRagdoll x y opts)))
            = {if stiffness cs = 0 then Library_default else Configured (stiffness cs)}"
    unfolding createRagdoll_stiffness by (simp add: c merge_config_def or_default_def)
  have f: "ragdoll (snd (createFighter w x y fo fresh))
       = Some (createRagdoll x y (or_default (ragdollConfig fo) no_options))"
    by (simp add: createFighter_def Let_def)
  have a: "fst (createAI m f tgt)
       = \<lparr> fighter = Some f, target = tgt, state = IDLE, enabled = True, lastDistance = 0 \<rparr>"
    by (simp add: createAI_def Let_def)
  have t: "idleDistance = 80" "approachDistance = 150" "idleDistance < approachDistance"
    by (simp_all add: idleDistance_def approachDistance_def)
  show ?thesis
    using n j c ph cs f a t by (intro conjI)
qed

theorem invalid_numbers_not_rejected_witness:
  "o_physics zero_options
     = Some \<lparr> friction = 0.8, frictionStatic = 0.9, frictionAir = 0.02, restitution = 0.1,
              density = 0 \<rparr>
   \<and> o_constraints zero_options = Some \<lparr> stiffness = 0, damping = 0.3, angularStiffness = 0.1 \<rparr>
   \<and> length (bodies (createRagdoll 0 0 zero_options)) = 15
   \<and> length (constraints (createRagdoll 0 0 zero_options)) = 14
   \<and> density (physics (config (createRagdoll 0 0 zero_options))) = 0
   \<and> stiffness (constraintSettings (config (createRagdoll 0 0 zero_options))) = 0
   \<and> set (map c_stiffness (constraints (createRagdoll 0 0 zero_options))) = {Library_default}"
proof -
  have o: "o_physics zero_options
     = Some \<lparr> friction = 0.8, frictionStatic = 0.9, frictionAir = 0.02, restitution = 0.1,
              density = 0 \<rparr>"
    "o_constraints zero_options = Some \<lparr> stiffness = 0, damping = 0.3, angularStiffness = 0.1 \<rparr>"
    by (simp_all add: zero_options_def no_options_def)
  note T = invalid_numbers_not_rejected
             [where x = 0 and y = 0 and opts = zero_options
                and ph = "\<lparr> friction = 0.8, frictionStatic = 0.9, frictionAir = 0.02,
                            restitution = 0.1, density = 0 \<rparr>"
                and cs = "\<lparr> stiffness = 0, damping = 0.3, angularStiffness = 0.1 \<rparr>"]
  note n = T [THEN conjunct1]
  note j = T [THEN conjunct2, THEN conjunct1]
  note ph = T [THEN conjunct2, THEN conjunct2, THEN conjunct2, THEN conjunct1, THEN mp, OF o(1)]
  note cs = T [THEN conjunct2, THEN conjunct2, THEN conjunct2, THEN conjunct2, THEN conjunct1,
               THEN mp, OF o(2)]
  have d: "density (physics (config (createRagdoll 0 0 zero_options))) = 0"
    by (simp add: ph)
  have k: "stiffness (constraintSettings (config (createRagdoll 0 0 zero_options))) = 0"
    "set (map c_stiffness (constraints (createRagdoll 0 0 zero_options))) = {Library_default}"
    using cs by simp_all
  show ?thesis using o n j d k by (intro conjI)
qed


end
